theory Spec2Isabelle
  imports Main "HOL-Library.Sublist"
begin

section \<open>JavaScript strings\<close>

text \<open>
  A JavaScript string is modelled as a \<^typ>\<open>string\<close>, one \<^typ>\<open>char\<close> per code unit:
  the model covers the strings whose code units are below U+0100 (ASCII and the Latin-1
  supplement). On these, \<open>toLowerCase\<close> maps the letters A to Z, and the capital letters
  from U+00C0 to U+00DE (the sign U+00D7 apart) to the letter 32 places further on, one
  code unit at a time. White space (the class \<open>\s\<close>, \<open>trim\<close>, the start of what
  \<open>parseFloat\<close> reads) is the ASCII white space and the no-break space U+00A0. A digit
  (\<open>\d\<close>) is one of 0 to 9, and a word character (\<open>\w\<close>, \<open>\b\<close>) is one of
  \<open>[A-Za-z0-9_]\<close>, also under the flag \<open>i\<close>.
\<close>

definition capitalLetters :: string where
  "capitalLetters =
     ''ABCDEFGHIJKLMNOPQRSTUVWXYZ'' @
     [CHR 0xC0, CHR 0xC1, CHR 0xC2, CHR 0xC3, CHR 0xC4, CHR 0xC5, CHR 0xC6, CHR 0xC7,
      CHR 0xC8, CHR 0xC9, CHR 0xCA, CHR 0xCB, CHR 0xCC, CHR 0xCD, CHR 0xCE, CHR 0xCF,
      CHR 0xD0, CHR 0xD1, CHR 0xD2, CHR 0xD3, CHR 0xD4, CHR 0xD5, CHR 0xD6, CHR 0xD8,
      CHR 0xD9, CHR 0xDA, CHR 0xDB, CHR 0xDC, CHR 0xDD, CHR 0xDE]"

definition smallLetters :: string where
  "smallLetters =
     ''abcdefghijklmnopqrstuvwxyz'' @
     [CHR 0xE0, CHR 0xE1, CHR 0xE2, CHR 0xE3, CHR 0xE4, CHR 0xE5, CHR 0xE6, CHR 0xE7,
      CHR 0xE8, CHR 0xE9, CHR 0xEA, CHR 0xEB, CHR 0xEC, CHR 0xED, CHR 0xEE, CHR 0xEF,
      CHR 0xF0, CHR 0xF1, CHR 0xF2, CHR 0xF3, CHR 0xF4, CHR 0xF5, CHR 0xF6, CHR 0xF8,
      CHR 0xF9, CHR 0xFA, CHR 0xFB, CHR 0xFC, CHR 0xFD, CHR 0xFE]"

definition lowerChar :: "char \<Rightarrow> char" where
  "lowerChar c =
     (case map_of (zip capitalLetters smallLetters) c of
        Some d \<Rightarrow> d
      | None \<Rightarrow> c)"

text \<open>
  \<open>c.toUpperCase()\<close> for one code unit: the capital letter, and \<open>SS\<close> for the sharp s
  U+00DF. (The capitals of U+00B5 and of U+00FF are U+039C and U+0178, beyond the code
  units of this model: a text that begins with one of these two letters is kept as it
  is here. The function enters the labels of a chart only.)
\<close>

definition upperChar :: "char \<Rightarrow> string" where
  "upperChar c =
     (if c = CHR 0xDF then ''SS''
      else
        (case map_of (zip smallLetters capitalLetters) c of
           Some d \<Rightarrow> [d]
         | None \<Rightarrow> [c]))"

definition toLowerCase :: "string \<Rightarrow> string" where
  "toLowerCase s = map lowerChar s"

text \<open>\<open>s.includes(t)\<close>: \<open>t\<close> occurs in \<open>s\<close> as a contiguous piece.\<close>

definition includesStr :: "string \<Rightarrow> string \<Rightarrow> bool" where
  "includesStr s t = sublist t s"

text \<open>\<open>s.startsWith(t)\<close>.\<close>

definition startsWith :: "string \<Rightarrow> string \<Rightarrow> bool" where
  "startsWith s t = prefix t s"

definition isDigit :: "char \<Rightarrow> bool" where
  "isDigit c = (c \<in> set ''0123456789'')"

definition isSpace :: "char \<Rightarrow> bool" where
  "isSpace c =
     (c \<in> set [CHR '' '', CHR 0x09, CHR 0x0A, CHR 0x0B, CHR 0x0C, CHR 0x0D, CHR 0xA0])"

definition isWordChar :: "char \<Rightarrow> bool" where
  "isWordChar c =
     (c \<in> set ''abcdefghijklmnopqrstuvwxyzABCDEFGHIJKLMNOPQRSTUVWXYZ0123456789_'')"

text \<open>\<open>s.trim()\<close>.\<close>

definition trim :: "string \<Rightarrow> string" where
  "trim s = rev (dropWhile isSpace (rev (dropWhile isSpace s)))"

text \<open>
  \<open>s.replace(pat, r)\<close> with a string pattern: the first occurrence of \<open>pat\<close> is replaced.
  (The replacement strings of the program contain no \<open>$\<close>, so the replacement is literal.)
\<close>

fun replaceStr :: "string \<Rightarrow> string \<Rightarrow> string \<Rightarrow> string" where
  "replaceStr [] pat r = (if pat = [] then r else [])"
| "replaceStr (c # cs) pat r =
     (if prefix pat (c # cs) then r @ drop (length pat) (c # cs)
      else c # replaceStr cs pat r)"

text \<open>The decimal digits of an array index, as the template \<open>`${index}`\<close> prints it.\<close>

definition digitChar :: "nat \<Rightarrow> char" where
  "digitChar d = ''0123456789'' ! d"

fun digitsOf :: "nat \<Rightarrow> string" where
  "digitsOf n =
     (if n < 10 then [digitChar n] else digitsOf (n div 10) @ [digitChar (n mod 10)])"

declare digitsOf.simps [simp del]

text \<open>The value of a run of decimal digits, as \<open>parseInt(s, 10)\<close> reads it.\<close>

definition digitValue :: "char \<Rightarrow> nat" where
  "digitValue c =
     (case map_of (zip ''0123456789'' [0, 1, 2, 3, 4, 5, 6, 7, 8, 9]) c of
        Some d \<Rightarrow> d
      | None \<Rightarrow> 0)"

definition parseDigits :: "string \<Rightarrow> nat" where
  "parseDigits s = foldl (\<lambda>acc c. 10 * acc + digitValue c) 0 s"

section \<open>What a call can raise\<close>

text \<open>
  A value caught by a \<open>catch\<close> clause: an authentication error of the LLM client, any
  other \<open>Error\<close> object (both carry a message), or a thrown value that is not an
  \<open>Error\<close>.
\<close>

datatype thrown = AuthenticationError string | OtherError string | NotAnError

fun isError :: "thrown \<Rightarrow> bool" where
  "isError NotAnError = False"
| "isError _ = True"

fun message :: "thrown \<Rightarrow> string" where
  "message (AuthenticationError m) = m"
| "message (OtherError m) = m"
| "message NotAnError = []"

section \<open>lib/db.ts: the parameterised query\<close>

text \<open>
  The database driver is a parameter of the model: obtaining the pool may fail, and
  running a statement on a request (the inputs registered on it, by name, and the SQL
  text) either raises or yields a result whose record set may be absent.
\<close>

record ('p, 'r) driver =
  getPool :: "thrown option"
  runQuery :: "(string \<times> 'p) list \<Rightarrow> string \<Rightarrow> thrown + 'r list option"

text \<open>\<open>params.forEach((param, index) => request.input(`p${index}`, param))\<close>\<close>

definition requestInputs :: "'p list \<Rightarrow> (string \<times> 'p) list" where
  "requestInputs params =
     map (\<lambda>index. (''p'' @ digitsOf index, params ! index)) [0..<length params]"

text \<open>
  \<open>params.forEach((_, index) => preparedQuery = preparedQuery.replace('?', `@p${index}`))\<close>
\<close>

definition preparedQuery :: "string \<Rightarrow> 'p list \<Rightarrow> string" where
  "preparedQuery queryText params =
     foldl (\<lambda>q index. replaceStr q ''?'' (''@p'' @ digitsOf index)) queryText
       [0..<length params]"

text \<open>The \<open>catch\<close> of \<open>query\<close> logs and throws the error again.\<close>

definition query :: "('p, 'r) driver \<Rightarrow> string \<Rightarrow> 'p list \<Rightarrow> thrown + 'r list option" where
  "query db queryText params =
     (case getPool db of
        Some err \<Rightarrow> Inl err
      | None \<Rightarrow> runQuery db (requestInputs params) (preparedQuery queryText params))"

text \<open>
  The reading of the specification: walking the SQL text from the left, the \<open>i\<close>-th
  question mark met becomes \<open>@p<i>\<close>.
\<close>

fun substitutePlaceholders :: "nat \<Rightarrow> string \<Rightarrow> string" where
  "substitutePlaceholders i [] = []"
| "substitutePlaceholders i (c # cs) =
     (if c = CHR ''?'' then ''@p'' @ digitsOf i @ substitutePlaceholders (Suc i) cs
      else c # substitutePlaceholders i cs)"

definition placeholders :: "string \<Rightarrow> nat" where
  "placeholders s = length (filter (\<lambda>c. c = CHR ''?'') s)"

section \<open>lib/database-service.ts: executeNaturalLanguageQuery\<close>

record 'p queryData =
  input_query :: "string option"
  input_sql :: "string option"
  input_params :: "'p list option"

datatype 'r queryResult =
  Success (resultData: "'r list") (rowCount: nat) (resultExplanation: string) (resultSql: string)
| Failure (resultError: string) (failureExplanation: string)

fun success :: "'r queryResult \<Rightarrow> bool" where
  "success (Success _ _ _ _) = True"
| "success (Failure _ _) = False"

definition errorMessage :: "thrown \<Rightarrow> string" where
  "errorMessage e = (if isError e then message e else ''Unknown error occurred'')"

definition queryExplanation :: "string \<Rightarrow> string" where
  "queryExplanation s =
     (let explanation =
            (if includesStr (toLowerCase s) ''group by''
             then ''This query aggregates data from the database''
             else ''This query retrieves data from the database'')
      in if includesStr (toLowerCase s) ''order by''
         then explanation @ '' and sorts the results'' else explanation)"

definition executeNaturalLanguageQuery ::
    "('p, 'r) driver \<Rightarrow> 'p queryData \<Rightarrow> 'r queryResult" where
  "executeNaturalLanguageQuery db queryData =
     (let s = (case input_sql queryData of None \<Rightarrow> [] | Some t \<Rightarrow> t);
          ps = (case input_params queryData of None \<Rightarrow> [] | Some l \<Rightarrow> l)
      in if s = [] then Failure ''No SQL query provided'' ''Failed to generate SQL query''
         else
           (case query db s ps of
              Inl err \<Rightarrow>
                Failure (errorMessage err) ''An error occurred while executing your query.''
            | Inr result \<Rightarrow>
                (let rows = (case result of None \<Rightarrow> [] | Some rs \<Rightarrow> rs)
                 in Success rows (length rows) (queryExplanation s) s)))"

section \<open>JavaScript values and result rows\<close>

text \<open>
  A value of a result row. The numbers of JavaScript are doubles; the model leaves their
  type \<open>'n\<close> open and takes \<open>String\<close> on numbers as a parameter \<open>numStr\<close>. An object
  value (a \<open>Date\<close>, a \<open>Buffer\<close>) is carried with the text that \<open>String\<close> makes of it.
  A row is the list of its properties in the order of \<open>Object.keys\<close>.
\<close>

datatype 'n jsval = JUndefined | JNull | JBool bool | JNum 'n | JStr string | JObject string

type_synonym 'n row = "(string \<times> 'n jsval) list"

fun typeof :: "'n jsval \<Rightarrow> string" where
  "typeof JUndefined = ''undefined''"
| "typeof JNull = ''object''"
| "typeof (JBool _) = ''boolean''"
| "typeof (JNum _) = ''number''"
| "typeof (JStr _) = ''string''"
| "typeof (JObject _) = ''object''"

text \<open>\<open>String(v)\<close>\<close>

fun toStr :: "('n \<Rightarrow> string) \<Rightarrow> 'n jsval \<Rightarrow> string" where
  "toStr numStr JUndefined = ''undefined''"
| "toStr numStr JNull = ''null''"
| "toStr numStr (JBool b) = (if b then ''true'' else ''false'')"
| "toStr numStr (JNum n) = numStr n"
| "toStr numStr (JStr s) = s"
| "toStr numStr (JObject s) = s"

text \<open>\<open>row[key]\<close>: the value of the property, \<open>undefined\<close> when the row has none.\<close>

definition getProp :: "'n row \<Rightarrow> string \<Rightarrow> 'n jsval" where
  "getProp r key = (case map_of r key of None \<Rightarrow> JUndefined | Some v \<Rightarrow> v)"

text \<open>
  \<open>!isNaN(parseFloat(s))\<close>: \<open>parseFloat\<close> skips leading white space and reads the longest
  prefix that is a decimal literal, so the result is a number exactly when, after an
  optional sign, the text goes on with \<open>Infinity\<close>, with a digit, or with a dot and a
  digit.
\<close>

definition parsesAsNumber :: "string \<Rightarrow> bool" where
  "parsesAsNumber s =
     (let t = dropWhile isSpace s;
          u = (case t of [] \<Rightarrow> [] | c # cs \<Rightarrow> if c = CHR ''+'' \<or> c = CHR ''-'' then cs else t)
      in startsWith u ''Infinity'' \<or>
         (case u of
            [] \<Rightarrow> False
          | c # cs \<Rightarrow>
              isDigit c \<or> (c = CHR ''.'' \<and> (case cs of [] \<Rightarrow> False | d # _ \<Rightarrow> isDigit d))))"

section \<open>app/api/finance/route.ts: the grounding check\<close>

text \<open>
  \<open>typeof val === 'number' || (typeof val === 'string' && !isNaN(parseFloat(val)))\<close>
\<close>

fun isNumericValue :: "'n jsval \<Rightarrow> bool" where
  "isNumericValue (JNum _) = True"
| "isNumericValue (JStr s) = parsesAsNumber s"
| "isNumericValue _ = False"

definition needsDataExplanation :: "('n \<Rightarrow> string) \<Rightarrow> string \<Rightarrow> 'n row list \<Rightarrow> bool" where
  "needsDataExplanation numStr responseText queryData =
     (if queryData = [] \<or> responseText = [] then False
      else
        (let hasDataValues =
               list_ex (\<lambda>row.
                  (let numericValues = filter isNumericValue (map snd row);
                       stringValues = map (toStr numStr) numericValues
                   in list_ex (\<lambda>strVal. includesStr responseText strVal) stringValues))
                 queryData
         in \<not> hasDataValues))"

text \<open>
  The reading of the specification: the answer is grounded when some numeric value of
  some row, in its string form, occurs in the response text.
\<close>

definition referencesDataValue :: "('n \<Rightarrow> string) \<Rightarrow> string \<Rightarrow> 'n row list \<Rightarrow> bool" where
  "referencesDataValue numStr responseText queryData =
     (\<exists>row \<in> set queryData. \<exists>v \<in> snd ` set row.
        isNumericValue v \<and> includesStr responseText (toStr numStr v))"

text \<open>
  A block of an LLM reply. The text of a block that is not a text block is
  \<open>undefined\<close>, which string concatenation prints as such.
\<close>

datatype 'i content = Text string | ToolUse string 'i

fun blockText :: "'i content \<Rightarrow> string" where
  "blockText (Text t) = t"
| "blockText (ToolUse name inp) = ''undefined''"

text \<open>
  The follow-up request of \<open>getDataExplanation\<close>, by the parts of its prompt that vary:
  the question, the rows of the data sample, and the count of the rows left out, when
  there are any. The LLM client is a parameter: a call raises or yields the blocks of the
  reply.
\<close>

record 'n explanationRequest =
  asked :: string
  dataSample :: "'n row list"
  moreRows :: "nat option"

definition explanationRequest :: "'n row list \<Rightarrow> string \<Rightarrow> 'n explanationRequest" where
  "explanationRequest queryData nlQuery =
     \<lparr>asked = nlQuery,
      dataSample = (if length queryData > 5 then take 5 queryData else queryData),
      moreRows = (if length queryData > 5 then Some (length queryData - 5) else None)\<rparr>"

text \<open>
  \<open>getDataExplanation\<close> returns the text, and the model returns with it the LLM calls
  made. Reading \<open>content[0].text\<close> of a reply without blocks raises inside the \<open>try\<close>.
\<close>

definition getDataExplanation ::
    "('n explanationRequest \<Rightarrow> thrown + 'i content list) \<Rightarrow> string \<Rightarrow> 'n row list \<Rightarrow> string
       \<Rightarrow> string \<times> 'n explanationRequest list" where
  "getDataExplanation create originalResponse queryData nlQuery =
     (let followUpMessage = explanationRequest queryData nlQuery
      in (case create followUpMessage of
            Inl err \<Rightarrow> originalResponse
          | Inr [] \<Rightarrow> originalResponse
          | Inr (block # _) \<Rightarrow> originalResponse @ [CHR 0x0A, CHR 0x0A] @ blockText block,
          [followUpMessage]))"

text \<open>
  The step of \<open>POST\<close> that checks the answer against the rows: \<open>textContent\<close> is the
  first text block of the reply, if there is one; the result is its new text and the
  explanation calls made. (The other branch of the \<open>if\<close> asks for no explanation.)
\<close>

definition groundingStep ::
    "('n \<Rightarrow> string) \<Rightarrow> ('n explanationRequest \<Rightarrow> thrown + 'i content list) \<Rightarrow> string option
       \<Rightarrow> 'n row list \<Rightarrow> string \<Rightarrow> string option \<times> 'n explanationRequest list" where
  "groundingStep numStr create textContent queryData nlQuery =
     (let textResponse = (case textContent of None \<Rightarrow> [] | Some t \<Rightarrow> t)
      in if needsDataExplanation numStr textResponse queryData
         then
           (let (textResponse', calls) =
                  getDataExplanation create textResponse queryData nlQuery
            in ((case textContent of None \<Rightarrow> None | Some _ \<Rightarrow> Some textResponse'), calls))
         else (textContent, []))"

section \<open>app/api/finance/route.ts: shouldCreateVisualization\<close>

text \<open>
  The regular expression \<open>/\b(top|bottom|highest|lowest|most|least)\s+(\d+)\b/i\<close>, matched
  at one position: \<open>prev\<close> is the character in front of the position, if any. The
  alternatives are tried in order. \<open>\s+\<close> and \<open>\d+\<close> take every white space and every
  digit there is: with less white space the next character is no digit, and with fewer
  digits the next character is a digit, so that \<open>\b\<close> fails. The value is that of
  \<open>parseInt(matches[2], 10)\<close>.
\<close>

definition wordBoundary :: "char option \<Rightarrow> char option \<Rightarrow> bool" where
  "wordBoundary prev next =
     ((case prev of None \<Rightarrow> False | Some c \<Rightarrow> isWordChar c)
        \<noteq> (case next of None \<Rightarrow> False | Some c \<Rightarrow> isWordChar c))"

definition headOption :: "'a list \<Rightarrow> 'a option" where
  "headOption xs = (case xs of [] \<Rightarrow> None | x # _ \<Rightarrow> Some x)"

definition countAfterKeyword :: "string \<Rightarrow> string \<Rightarrow> nat option" where
  "countAfterKeyword keyword s =
     (if prefix keyword (toLowerCase s) then
        (let r = drop (length keyword) s;
             spaces = takeWhile isSpace r;
             digits = takeWhile isDigit (dropWhile isSpace r);
             rest = dropWhile isDigit (dropWhile isSpace r)
         in if spaces \<noteq> [] \<and> digits \<noteq> []
               \<and> wordBoundary (Some (last digits)) (headOption rest)
            then Some (parseDigits digits) else None)
      else None)"

definition rankingWords :: "string list" where
  "rankingWords = [''top'', ''bottom'', ''highest'', ''lowest'', ''most'', ''least'']"

fun firstSome :: "('a \<Rightarrow> 'b option) \<Rightarrow> 'a list \<Rightarrow> 'b option" where
  "firstSome f [] = None"
| "firstSome f (x # xs) = (case f x of Some y \<Rightarrow> Some y | None \<Rightarrow> firstSome f xs)"

definition countMatchAt :: "char option \<Rightarrow> string \<Rightarrow> nat option" where
  "countMatchAt prev s =
     (if wordBoundary prev (headOption s)
      then firstSome (\<lambda>keyword. countAfterKeyword keyword s) rankingWords
      else None)"

text \<open>\<open>normalizedQuery.match(...)\<close>: the leftmost position with a match decides.\<close>

fun countMatchFrom :: "char option \<Rightarrow> string \<Rightarrow> nat option" where
  "countMatchFrom prev [] = None"
| "countMatchFrom prev (c # cs) =
     (case countMatchAt prev (c # cs) of
        Some n \<Rightarrow> Some n
      | None \<Rightarrow> countMatchFrom (Some c) cs)"

definition comparisonCount :: "string \<Rightarrow> nat option" where
  "comparisonCount normalizedQuery = countMatchFrom None normalizedQuery"

definition vizKeywords :: "string list" where
  "vizKeywords = [''compare'', ''trend'', ''distribution'', ''chart'', ''graph'']"

definition metricTerms :: "string list" where
  "metricTerms = [''sales'', ''revenue'', ''profit'', ''products'', ''performance'', ''data'',
     ''count'', ''total'', ''amount'']"

definition categoryTerms :: "string list" where
  "categoryTerms = [''region'', ''country'', ''city'', ''product'', ''category'', ''month'',
     ''year'', ''quarter'', ''date'', ''day'', ''type'']"

definition comparisonKeywords :: "string list" where
  "comparisonKeywords = [''top'', ''bottom'', ''highest'', ''lowest'', ''most'', ''least'',
     ''compare'', ''comparison'', ''versus'', ''vs'']"

definition directRequest :: "string \<Rightarrow> bool" where
  "directRequest normalizedQuery =
     (startsWith normalizedQuery ''show'' \<or> startsWith normalizedQuery ''display''
      \<or> includesStr normalizedQuery ''show me'' \<or> includesStr normalizedQuery ''visual'')"

definition metricByCategory :: "string \<Rightarrow> bool" where
  "metricByCategory normalizedQuery =
     (includesStr normalizedQuery '' by ''
      \<and> list_ex (\<lambda>metric. includesStr normalizedQuery metric) metricTerms
      \<and> list_ex (\<lambda>category. includesStr normalizedQuery ('' by '' @ category)) categoryTerms)"

definition hasDateColumn :: "string list \<Rightarrow> bool" where
  "hasDateColumn keys =
     list_ex (\<lambda>key. includesStr (toLowerCase key) ''date'' \<or> includesStr (toLowerCase key) ''time''
                \<or> includesStr (toLowerCase key) ''month'' \<or> includesStr (toLowerCase key) ''year'')
       keys"

definition possibleCategoryColumns :: "string list \<Rightarrow> string list" where
  "possibleCategoryColumns keys =
     filter (\<lambda>key. includesStr (toLowerCase key) ''type''
                \<or> includesStr (toLowerCase key) ''category''
                \<or> includesStr (toLowerCase key) ''region''
                \<or> includesStr (toLowerCase key) ''country''
                \<or> includesStr (toLowerCase key) ''city''
                \<or> includesStr (toLowerCase key) ''product''
                \<or> includesStr (toLowerCase key) ''name'')
       keys"

text \<open>
  \<open>shouldCreateVisualization\<close> is a closure of \<open>POST\<close> over \<open>userWantsChart\<close> (the reply
  holds a chart tool call), a parameter here. \<open>data[0]\<close> is read only after the test
  \<open>data.length <= 3\<close> has let the rows pass.
\<close>

definition shouldCreateVisualization ::
    "bool \<Rightarrow> ('n \<Rightarrow> string) \<Rightarrow> 'n row list \<Rightarrow> string \<Rightarrow> bool" where
  "shouldCreateVisualization userWantsChart numStr rows queryText =
     (let normalizedQuery = trim (toLowerCase queryText) in
      if userWantsChart then True
      else if directRequest normalizedQuery then True
      else if list_ex (\<lambda>keyword. includesStr normalizedQuery keyword) vizKeywords then True
      else if metricByCategory normalizedQuery \<and> length rows > 1 then True
      else if list_ex (\<lambda>keyword. includesStr normalizedQuery keyword) comparisonKeywords then
        (case comparisonCount normalizedQuery of
           Some number \<Rightarrow> number > 3
         | None \<Rightarrow> length rows > 3)
      else if length rows \<le> 3 then False
      else
        (let keys = map fst (hd rows) in
         if hasDateColumn keys \<and> length rows > 3 then True
         else if length rows > 3 \<and> possibleCategoryColumns keys \<noteq> [] then True
         else
           (let numericColumns =
                  filter (\<lambda>key. (let v = getProp (hd rows) key
                                  in typeof v = ''number'' \<or> parsesAsNumber (toStr numStr v)))
                    keys
            in length numericColumns > 1 \<and> length rows > 3)))"

text \<open>
  The reading of the specification for the explicit count: the pattern
  \<open>(top|bottom|highest|lowest|most|least)\s+(\d+)\<close>, without word boundaries, leftmost
  match.
\<close>

definition specCountAfterKeyword :: "string \<Rightarrow> string \<Rightarrow> nat option" where
  "specCountAfterKeyword keyword s =
     (if prefix keyword s then
        (let r = drop (length keyword) s;
             spaces = takeWhile isSpace r;
             digits = takeWhile isDigit (dropWhile isSpace r)
         in if spaces \<noteq> [] \<and> digits \<noteq> [] then Some (parseDigits digits) else None)
      else None)"

fun specCount :: "string \<Rightarrow> nat option" where
  "specCount [] = None"
| "specCount (c # cs) =
     (case firstSome (\<lambda>keyword. specCountAfterKeyword keyword (c # cs)) rankingWords of
        Some n \<Rightarrow> Some n
      | None \<Rightarrow> specCount cs)"

section \<open>Objects built by the program, and charts\<close>

text \<open>
  \<open>obj[key] = v\<close> on an object given by its properties in the order of \<open>Object.keys\<close>:
  an existing property keeps its place, a new integer-like key goes among the
  integer-like keys in ascending order, any other new key goes last.
\<close>

definition isIndexKey :: "string \<Rightarrow> bool" where
  "isIndexKey k =
     (k \<noteq> [] \<and> list_all isDigit k \<and> (length k = 1 \<or> hd k \<noteq> CHR ''0'')
      \<and> parseDigits k < 4294967295)"

fun insertIndexed :: "string \<Rightarrow> 'v \<Rightarrow> (string \<times> 'v) list \<Rightarrow> (string \<times> 'v) list" where
  "insertIndexed k v [] = [(k, v)]"
| "insertIndexed k v ((k', v') # rest) =
     (if isIndexKey k' \<and> parseDigits k' < parseDigits k then (k', v') # insertIndexed k v rest
      else (k, v) # (k', v') # rest)"

definition setProp :: "(string \<times> 'v) list \<Rightarrow> string \<Rightarrow> 'v \<Rightarrow> (string \<times> 'v) list" where
  "setProp obj k v =
     (if k \<in> fst ` set obj then map (\<lambda>(k', v'). if k' = k then (k', v) else (k', v')) obj
      else if isIndexKey k then insertIndexed k v obj
      else obj @ [(k, v)])"

text \<open>
  A chart object. A field that may be missing is an option; a text is truthy when it is
  there and not empty. The fields a function does not name are neither read nor written
  by it and are left out of the model.
\<close>

definition truthy :: "string option \<Rightarrow> bool" where
  "truthy t = (case t of None \<Rightarrow> False | Some s \<Rightarrow> s \<noteq> [])"

record margin =
  margin_top :: int
  margin_right :: int
  margin_bottom :: int
  margin_left :: int

record series =
  series_label :: "string option"
  series_dataKey :: "string option"
  series_name :: "string option"
  series_color :: "string option"

record chartOptions =
  cfg_xAxisKey :: "string option"
  cfg_title :: "string option"
  cfg_description :: "string option"
  cfg_totalLabel :: "string option"
  cfg_margin :: "margin option"

record 'n chart =
  chart_chartType :: "string option"
  chart_data :: "'n row list option"
  chart_config :: "chartOptions option"
  chart_chartConfig :: "(string \<times> series) list option"

definition emptySeries :: series where
  "emptySeries =
     \<lparr>series_label = None, series_dataKey = None, series_name = None, series_color = None\<rparr>"

definition emptyOptions :: chartOptions where
  "emptyOptions =
     \<lparr>cfg_xAxisKey = None, cfg_title = None, cfg_description = None, cfg_totalLabel = None,
      cfg_margin = None\<rparr>"

section \<open>lib/database-service.ts: prepareDataForVisualization\<close>

text \<open>\<open>s.replace(/_/g, ' ')\<close> and the like: every occurrence of one character.\<close>

definition replaceAllChar :: "char \<Rightarrow> string \<Rightarrow> string \<Rightarrow> string" where
  "replaceAllChar x r s = concat (map (\<lambda>c. if c = x then r else [c]) s)"

text \<open>\<open>s.split(sep)\<close> for a separator of one character.\<close>

fun splitOn :: "char \<Rightarrow> string \<Rightarrow> string list" where
  "splitOn sep [] = [[]]"
| "splitOn sep (c # cs) =
     (if c = sep then [] # splitOn sep cs
      else (case splitOn sep cs of
              [] \<Rightarrow> [[c]]
            | w # ws \<Rightarrow> (c # w) # ws))"

text \<open>\<open>parts.join(sep)\<close>\<close>

fun joinWith :: "string \<Rightarrow> string list \<Rightarrow> string" where
  "joinWith sep [] = []"
| "joinWith sep [w] = w"
| "joinWith sep (w # ws) = w @ sep @ joinWith sep ws"

text \<open>\<open>word.charAt(0).toUpperCase() + word.slice(1)\<close>\<close>

definition capitalize :: "string \<Rightarrow> string" where
  "capitalize word = (case word of [] \<Rightarrow> [] | c # cs \<Rightarrow> upperChar c @ cs)"

definition formatColumnLabel :: "string \<Rightarrow> string" where
  "formatColumnLabel columnName =
     (if startsWith columnName ''total_''
        then ''Total '' @ replaceAllChar (CHR ''_'') '' '' (drop 6 columnName)
      else if startsWith columnName ''avg_''
        then ''Average '' @ replaceAllChar (CHR ''_'') '' '' (drop 4 columnName)
      else if startsWith columnName ''count_''
        then ''Count of '' @ replaceAllChar (CHR ''_'') '' '' (drop 6 columnName)
      else if includesStr columnName ''FORMAT('' \<or> includesStr columnName ''YEAR(''
              \<or> includesStr columnName ''MONTH('' \<or> includesStr columnName ''DAY(''
        then ''Date''
      else joinWith '' '' (map capitalize (splitOn (CHR ''_'') columnName)))"

text \<open>\<open>s.replace(/\s+/g, '_')\<close>: every run of white space becomes one underscore.\<close>

function collapseSpaces :: "string \<Rightarrow> string" where
  "collapseSpaces [] = []"
| "collapseSpaces (c # cs) =
     (if isSpace c then CHR ''_'' # collapseSpaces (dropWhile isSpace cs)
      else c # collapseSpaces cs)"
  by pat_completeness auto
termination
  by (relation "measure length") (auto simp: length_dropWhile_le less_Suc_eq_le)

text \<open>\<open>s.replace(/\s+/g, '_').replace(/[^a-zA-Z0-9_]/g, '').toLowerCase()\<close>\<close>

definition seriesKeyOf :: "string \<Rightarrow> string" where
  "seriesKeyOf s = toLowerCase (filter isWordChar (collapseSpaces s))"

definition isTimeColumn :: "string \<Rightarrow> bool" where
  "isTimeColumn col =
     (includesStr (toLowerCase col) ''date'' \<or> includesStr (toLowerCase col) ''month''
      \<or> includesStr (toLowerCase col) ''year'' \<or> includesStr (toLowerCase col) ''period''
      \<or> includesStr (toLowerCase col) ''time_period''
      \<or> includesStr (toLowerCase col) ''format('')"

definition numericColumnsOf :: "'n row \<Rightarrow> string list \<Rightarrow> string list" where
  "numericColumnsOf row0 columns =
     filter (\<lambda>col. typeof (getProp row0 col) = ''number''
               \<and> \<not> includesStr (toLowerCase col) ''id'' \<and> col \<noteq> ''key'') columns"

definition categoricalColumnsOf :: "'n row \<Rightarrow> string list \<Rightarrow> string list" where
  "categoricalColumnsOf row0 columns =
     filter (\<lambda>col. typeof (getProp row0 col) = ''string''
               \<and> \<not> includesStr (toLowerCase col) ''date''
               \<and> col \<notin> set (filter isTimeColumn columns)) columns"

definition trendVocabulary :: "string \<Rightarrow> bool" where
  "trendVocabulary queryLower =
     (includesStr queryLower ''trend'' \<or> includesStr queryLower ''over time''
      \<or> includesStr queryLower ''timeseries'' \<or> includesStr queryLower ''time series'')"

definition distributionVocabulary :: "string \<Rightarrow> bool" where
  "distributionVocabulary queryLower =
     (includesStr queryLower ''distribution'' \<or> includesStr queryLower ''breakdown''
      \<or> includesStr queryLower ''proportion'' \<or> includesStr queryLower ''percentage''
      \<or> includesStr queryLower ''share'' \<or> includesStr queryLower ''pie'')"

text \<open>The chain of tests that sets \<open>chartData.chartType\<close>, which starts as \<open>'bar'\<close>.\<close>

definition selectChartType ::
    "string \<Rightarrow> bool \<Rightarrow> string list \<Rightarrow> string list \<Rightarrow> nat \<Rightarrow> string" where
  "selectChartType queryLower hasTimeColumn categoricalColumns numericColumns resultCount =
     (if hasTimeColumn \<and> trendVocabulary queryLower then ''line''
      else if length categoricalColumns > 0 \<and> length numericColumns > 1 then ''multibar''
      else if distributionVocabulary queryLower then ''pie''
      else if resultCount > 10 \<and> hasTimeColumn then ''line''
      else if length numericColumns > 3 then ''multibar''
      else if length numericColumns = 1 \<and> length categoricalColumns = 1 then ''bar''
      else ''bar'')"

text \<open>
  \<open>xAxisKey\<close> is \<open>undefined\<close> (\<open>None\<close>) when the first row has no column at all; a
  template or a computed property name prints it as such.
\<close>

definition selectXAxisKey ::
    "string list \<Rightarrow> string list \<Rightarrow> string list \<Rightarrow> string option" where
  "selectXAxisKey timeColumns categoricalColumns columns =
     (if timeColumns \<noteq> [] then headOption timeColumns
      else if length categoricalColumns > 0 then headOption categoricalColumns
      else headOption columns)"

definition keyText :: "string option \<Rightarrow> string" where
  "keyText k = (case k of None \<Rightarrow> ''undefined'' | Some t \<Rightarrow> t)"

text \<open>The value column of a bar or line chart.\<close>

definition selectValueColumn :: "string \<Rightarrow> string list \<Rightarrow> string" where
  "selectValueColumn queryLower numericColumns =
     (let mentioned =
            (case find (\<lambda>col. includesStr queryLower (toLowerCase col)) numericColumns of
               None \<Rightarrow> []
             | Some col \<Rightarrow> col)
      in if mentioned = [] \<and> length numericColumns > 0 then
           (if list_ex (\<lambda>col. includesStr (toLowerCase col) ''total'') numericColumns then
              (case find (\<lambda>col. includesStr (toLowerCase col) ''total'') numericColumns of
                 None \<Rightarrow> [] | Some col \<Rightarrow> col)
            else if list_ex (\<lambda>col. includesStr (toLowerCase col) ''sum'') numericColumns then
              (case find (\<lambda>col. includesStr (toLowerCase col) ''sum'') numericColumns of
                 None \<Rightarrow> [] | Some col \<Rightarrow> col)
            else if ''quantity'' \<in> set numericColumns then ''quantity''
            else hd numericColumns)
         else mentioned)"

text \<open>The three shapes of date text that are printed anew for display.\<close>

definition isIsoDate :: "string \<Rightarrow> bool" where
  "isIsoDate t =
     (length t = 10 \<and> list_all isDigit (take 4 t) \<and> t ! 4 = CHR ''-''
      \<and> list_all isDigit (take 2 (drop 5 t)) \<and> t ! 7 = CHR ''-''
      \<and> list_all isDigit (drop 8 t))"

definition isYearMonth :: "string \<Rightarrow> bool" where
  "isYearMonth t =
     (length t = 7 \<and> list_all isDigit (take 4 t) \<and> t ! 4 = CHR ''-''
      \<and> list_all isDigit (drop 5 t))"

definition isYearQuarter :: "string \<Rightarrow> bool" where
  "isYearQuarter t =
     (length t = 7 \<and> list_all isDigit (take 4 t) \<and> t ! 4 = CHR ''-'' \<and> t ! 5 = CHR ''Q''
      \<and> t ! 6 \<in> set ''1234'')"

definition monthNames :: "string list" where
  "monthNames = [''Jan'', ''Feb'', ''Mar'', ''Apr'', ''May'', ''Jun'', ''Jul'', ''Aug'', ''Sep'',
     ''Oct'', ''Nov'', ''Dec'']"

text \<open>\<open>monthNames[parseInt(month) - 1]\<close>, \<open>undefined\<close> outside of the twelve months.\<close>

definition monthName :: "string \<Rightarrow> string" where
  "monthName month =
     (let m = parseDigits month
      in if 1 \<le> m \<and> m \<le> 12 then monthNames ! (m - 1) else ''undefined'')"

text \<open>
  The new text of a time value, when it has one of the three shapes;
  \<open>toLocaleDateString\<close>, which depends on the time zone of the process, is a parameter.
\<close>

definition formatTimeValue :: "(string \<Rightarrow> string) \<Rightarrow> 'n jsval \<Rightarrow> 'n jsval option" where
  "formatTimeValue toLocaleDateString timeValue =
     (case timeValue of
        JStr t \<Rightarrow>
          (if t = [] then None
           else if isIsoDate t then Some (JStr (toLocaleDateString t))
           else if isYearMonth t then Some (JStr (monthName (drop 5 t) @ '' '' @ take 4 t))
           else if isYearQuarter t then Some (JStr (drop 5 t @ '' '' @ take 4 t))
           else None)
      | _ \<Rightarrow> None)"

definition formatTimeLabels ::
    "(string \<Rightarrow> string) \<Rightarrow> string option \<Rightarrow> 'n row list \<Rightarrow> 'n row list" where
  "formatTimeLabels toLocaleDateString xAxisKey items =
     map (\<lambda>item.
            (case formatTimeValue toLocaleDateString (getProp item (keyText xAxisKey)) of
               None \<Rightarrow> item
             | Some shown \<Rightarrow> setProp item (keyText xAxisKey) shown))
       items"

definition labelSeries :: "string \<Rightarrow> series" where
  "labelSeries l = emptySeries\<lparr>series_label := Some l\<rparr>"

text \<open>
  What the body of \<open>prepareDataForVisualization\<close> can raise: reading a column of a row
  that is \<open>null\<close> is a \<open>TypeError\<close>. The \<open>catch\<close> clause logs it and returns \<open>null\<close>.
\<close>

datatype raisedInBody = TypeError

text \<open>The chart as it is declared at the start of the body, with the type chosen.\<close>

definition defaultChart :: "string \<Rightarrow> 'n chart" where
  "defaultChart chartType =
     \<lparr>chart_chartType = Some chartType, chart_data = Some [],
      chart_config = Some (emptyOptions
        \<lparr>cfg_xAxisKey := Some [], cfg_title := Some ''Sales Data Analysis'',
         cfg_description := Some ''Analysis based on your query''\<rparr>),
      chart_chartConfig = Some []\<rparr>"

text \<open>Pie: one \<open>{segment, value}\<close> item for each row, one label for each segment.\<close>

definition pieShape ::
    "('n \<Rightarrow> string) \<Rightarrow> string \<Rightarrow> string \<Rightarrow> 'n row list \<Rightarrow> 'n chart" where
  "pieShape numStr xAxisKey valueColumn rows =
     \<lparr>chart_chartType = Some ''pie'',
      chart_data = Some
        (map (\<lambda>row. [(''segment'', JStr (toStr numStr (getProp row xAxisKey))),
                     (''value'', getProp row valueColumn)]) rows),
      chart_config = Some (emptyOptions
        \<lparr>cfg_xAxisKey := Some ''segment'',
         cfg_title := Some (''Distribution of '' @ valueColumn @ '' by '' @ xAxisKey),
         cfg_description := Some (''Breakdown of '' @ valueColumn @ '' across different ''
            @ xAxisKey @ '' categories'')\<rparr>),
      chart_chartConfig = Some
        (foldl (\<lambda>chartConfig row.
             setProp chartConfig (seriesKeyOf (toStr numStr (getProp row xAxisKey)))
               (labelSeries (toStr numStr (getProp row xAxisKey))))
           [] rows)\<rparr>"

text \<open>Multibar: the x-axis column and every numeric column, one series for each.\<close>

definition multibarShape :: "string option \<Rightarrow> string list \<Rightarrow> 'n row list \<Rightarrow> 'n chart" where
  "multibarShape xAxisKey numericColumns rows =
     \<lparr>chart_chartType = Some ''multibar'',
      chart_data = Some
        (map (\<lambda>row. foldl (\<lambda>dataPoint col. setProp dataPoint col (getProp row col))
                       [(keyText xAxisKey, getProp row (keyText xAxisKey))] numericColumns)
           rows),
      chart_config = Some (emptyOptions
        \<lparr>cfg_xAxisKey := xAxisKey,
         cfg_title := Some (''Comparison of '' @ joinWith '', '' (take 3 numericColumns)
            @ (if length numericColumns > 3 then '' and others'' else [])
            @ '' by '' @ keyText xAxisKey),
         cfg_description := Some (''Comparing metrics across different '' @ keyText xAxisKey
            @ '' values'')\<rparr>),
      chart_chartConfig = Some
        (foldl (\<lambda>chartConfig col.
             setProp chartConfig (seriesKeyOf col) (labelSeries (formatColumnLabel col)))
           [] numericColumns)\<rparr>"

text \<open>Bar and line: the x-axis column and one value column.\<close>

definition singleMetricShape :: "string \<Rightarrow> string \<Rightarrow> string \<Rightarrow> 'n row list \<Rightarrow> 'n chart" where
  "singleMetricShape chartType xAxisKey valueColumn rows =
     \<lparr>chart_chartType = Some chartType,
      chart_data = Some
        (map (\<lambda>row. setProp [(xAxisKey, getProp row xAxisKey)] valueColumn
                       (getProp row valueColumn)) rows),
      chart_config = Some (emptyOptions
        \<lparr>cfg_xAxisKey := Some xAxisKey,
         cfg_title := Some
           (if chartType = ''line''
            then formatColumnLabel valueColumn @ '' Trend by '' @ formatColumnLabel xAxisKey
            else formatColumnLabel valueColumn @ '' by '' @ formatColumnLabel xAxisKey),
         cfg_description := Some
           (if chartType = ''line''
            then ''How '' @ formatColumnLabel valueColumn @ '' changes over time''
            else ''Comparison of '' @ formatColumnLabel valueColumn
                   @ '' across different categories'')\<rparr>),
      chart_chartConfig = Some
        [(seriesKeyOf valueColumn, labelSeries (formatColumnLabel valueColumn))]\<rparr>"

text \<open>\<open>results.map(row => ...)\<close>, which raises a \<open>TypeError\<close> on a row that is \<open>null\<close>.\<close>

definition overRows ::
    "('n row list \<Rightarrow> 'a) \<Rightarrow> 'n row option list \<Rightarrow> raisedInBody + 'a" where
  "overRows shape results =
     (case those results of None \<Rightarrow> Inl TypeError | Some rows \<Rightarrow> Inr (shape rows))"

text \<open>
  The value column of a pie chart:
  \<open>numericColumns[0] || columns.find(col => typeof results[0][col] === 'number')\<close>
\<close>

definition pieValueColumn :: "'n row \<Rightarrow> string list \<Rightarrow> string list \<Rightarrow> string option" where
  "pieValueColumn row0 numericColumns columns =
     (if truthy (headOption numericColumns) then headOption numericColumns
      else find (\<lambda>col. typeof (getProp row0 col) = ''number'') columns)"

text \<open>The data and the configuration, by chart type.\<close>

definition shapeChart ::
    "('n \<Rightarrow> string) \<Rightarrow> string \<Rightarrow> 'n row option list \<Rightarrow> 'n row \<Rightarrow> string \<Rightarrow> string option
       \<Rightarrow> string list \<Rightarrow> string list \<Rightarrow> raisedInBody + 'n chart" where
  "shapeChart numStr queryLower results row0 chartType xAxisKey numericColumns columns =
     (if chartType = ''pie'' then
        (let valueColumn = pieValueColumn row0 numericColumns columns
         in if truthy xAxisKey \<and> truthy valueColumn
            then overRows (pieShape numStr (keyText xAxisKey) (keyText valueColumn)) results
            else Inr (defaultChart chartType))
      else if chartType = ''multibar'' then
        overRows (multibarShape xAxisKey numericColumns) results
      else
        (let valueColumn = selectValueColumn queryLower numericColumns
         in if truthy xAxisKey \<and> valueColumn \<noteq> []
            then overRows (singleMetricShape chartType (keyText xAxisKey) valueColumn) results
            else Inr (defaultChart chartType)))"

text \<open>The special formatting for time periods, after the shaping.\<close>

definition formatTimePeriods ::
    "(string \<Rightarrow> string) \<Rightarrow> bool \<Rightarrow> string option \<Rightarrow> 'n chart \<Rightarrow> 'n chart" where
  "formatTimePeriods toLocaleDateString hasTimeColumn xAxisKey chartData =
     (case chart_data chartData of
        None \<Rightarrow> chartData
      | Some items \<Rightarrow>
          if hasTimeColumn \<and> length items > 0
          then chartData\<lparr>chart_data := Some (formatTimeLabels toLocaleDateString xAxisKey items)\<rparr>
          else chartData)"

text \<open>
  The body of the \<open>try\<close> block. An element of \<open>results\<close> is a row object or \<open>null\<close>
  (\<open>None\<close>); reading a column of \<open>null\<close> raises a \<open>TypeError\<close>.
\<close>

definition visualizationBody ::
    "('n \<Rightarrow> string) \<Rightarrow> (string \<Rightarrow> string) \<Rightarrow> 'n row option list \<Rightarrow> string
       \<Rightarrow> raisedInBody + 'n chart" where
  "visualizationBody numStr toLocaleDateString results nlQuery =
     (case results of
        [] \<Rightarrow> Inl TypeError
      | None # _ \<Rightarrow> Inl TypeError
      | Some row0 # _ \<Rightarrow>
         (let queryLower = toLowerCase nlQuery;
              columns = map fst row0;
              timeColumns = filter isTimeColumn columns;
              hasTimeColumn = length timeColumns > 0;
              numericColumns = numericColumnsOf row0 columns;
              categoricalColumns = categoricalColumnsOf row0 columns;
              chartType = selectChartType queryLower hasTimeColumn categoricalColumns
                            numericColumns (length results);
              xAxisKey = selectXAxisKey timeColumns categoricalColumns columns
          in (case shapeChart numStr queryLower results row0 chartType xAxisKey numericColumns
                     columns of
                Inl err \<Rightarrow> Inl err
              | Inr chartData \<Rightarrow>
                  Inr (formatTimePeriods toLocaleDateString hasTimeColumn xAxisKey chartData))))"

text \<open>
  \<open>prepareDataForVisualization\<close>: \<open>null\<close> (\<open>None\<close>) for no rows, and for whatever the body
  raises, which the \<open>catch\<close> clause turns into \<open>null\<close>.
\<close>

definition prepareDataForVisualization ::
    "('n \<Rightarrow> string) \<Rightarrow> (string \<Rightarrow> string) \<Rightarrow> 'n row option list \<Rightarrow> string
       \<Rightarrow> 'n chart option" where
  "prepareDataForVisualization numStr toLocaleDateString results nlQuery =
     (if results = [] then None
      else (case visualizationBody numStr toLocaleDateString results nlQuery of
              Inl err \<Rightarrow> None
            | Inr chartData \<Rightarrow> Some chartData))"

section \<open>lib/sql-query-generator.ts: the schema catalog\<close>

record Column =
  col_name :: string
  col_dbName :: string
  col_type :: string
  col_description :: string
  col_isNullable :: bool

record TableSchema =
  tbl_tableName :: string
  tbl_dbTableName :: string
  tbl_description :: string
  tbl_columns :: "Column list"

definition salesDataSchema :: TableSchema where
  "salesDataSchema =
     \<lparr>tbl_tableName = ''sales_data'', tbl_dbTableName = ''sales_data'',
      tbl_description = ''List of sales transactions'',
      tbl_columns =
      [\<lparr>col_name = ''key'', col_dbName = ''key'', col_type = ''int'',
        col_description = ''Unique identifier of the transaction'',
        col_isNullable = False\<rparr>,
       \<lparr>col_name = ''country'', col_dbName = ''country'', col_type = ''nvarchar'',
        col_description = ''Country of the store'',
        col_isNullable = False\<rparr>,
       \<lparr>col_name = ''region'', col_dbName = ''region'', col_type = ''nvarchar'',
        col_description = ''Region of the store'',
        col_isNullable = False\<rparr>,
       \<lparr>col_name = ''city'', col_dbName = ''city'', col_type = ''nvarchar'',
        col_description = ''City of the store'',
        col_isNullable = False\<rparr>,
       \<lparr>col_name = ''store_id'', col_dbName = ''store_id'', col_type = ''int'',
        col_description = ''Unique identifier of the store'',
        col_isNullable = False\<rparr>,
       \<lparr>col_name = ''store_name'', col_dbName = ''store_name'', col_type = ''nvarchar'',
        col_description = ''Name of the store'',
        col_isNullable = False\<rparr>,
       \<lparr>col_name = ''sales_order_number'', col_dbName = ''sales_order_number'', col_type = ''nvarchar'',
        col_description = ''Sales order unique identifier'',
        col_isNullable = False\<rparr>,
       \<lparr>col_name = ''sales_date'', col_dbName = ''sales_date'', col_type = ''date'',
        col_description = ''Date of the sales order'',
        col_isNullable = False\<rparr>,
       \<lparr>col_name = ''product_name'', col_dbName = ''product_name'', col_type = ''nvarchar'',
        col_description = ''Name of the product sold'',
        col_isNullable = False\<rparr>,
       \<lparr>col_name = ''quantity'', col_dbName = ''quantity'', col_type = ''int'',
        col_description = ''Quantity of the product sold'',
        col_isNullable = False\<rparr>,
       \<lparr>col_name = ''unit_price'', col_dbName = ''unit_price'', col_type = ''decimal'',
        col_description = ''Price of the product'',
        col_isNullable = False\<rparr>,
       \<lparr>col_name = ''total_product_cost'', col_dbName = ''total_product_cost'', col_type = ''decimal'',
        col_description = ''Total cost of the product'',
        col_isNullable = False\<rparr>,
       \<lparr>col_name = ''material_cost'', col_dbName = ''material_cost'', col_type = ''decimal'',
        col_description = ''Cost of the materials used to make the product'',
        col_isNullable = False\<rparr>,
       \<lparr>col_name = ''shipping_cost'', col_dbName = ''shipping_cost'', col_type = ''decimal'',
        col_description = ''Cost of shipping the product'',
        col_isNullable = False\<rparr>,
       \<lparr>col_name = ''total_cost'', col_dbName = ''total_cost'', col_type = ''decimal'',
        col_description = ''Total cost of the product'',
        col_isNullable = False\<rparr>,
       \<lparr>col_name = ''sales_type'', col_dbName = ''sales_type'', col_type = ''nvarchar'',
        col_description = ''Type of sales (instore or delivery)'',
        col_isNullable = False\<rparr>,
       \<lparr>col_name = ''delivery_fee'', col_dbName = ''delivery_fee'', col_type = ''decimal'',
        col_description = ''Fee for the delivery of the product'',
        col_isNullable = False\<rparr>,
       \<lparr>col_name = ''delivery_duration_mins'', col_dbName = ''delivery_duration_mins'', col_type = ''int'',
        col_description = ''Amount of time it took to deliver the product'',
        col_isNullable = True\<rparr>,
       \<lparr>col_name = ''discount_code'', col_dbName = ''discount_code'', col_type = ''nvarchar'',
        col_description = ''Code of the discount applied to the product'',
        col_isNullable = True\<rparr>,
       \<lparr>col_name = ''discount_percent'', col_dbName = ''discount_percent'', col_type = ''int'',
        col_description = ''Percentage of discount applied to the product'',
        col_isNullable = True\<rparr>,
       \<lparr>col_name = ''delivery_plate'', col_dbName = ''delivery_plate'', col_type = ''nvarchar'',
        col_description = ''Plate number of the delivery vehicle'',
        col_isNullable = True\<rparr>]\<rparr>"

definition productDesignSchema :: TableSchema where
  "productDesignSchema =
     \<lparr>tbl_tableName = ''product_design'',
      tbl_dbTableName = ''unique_products_with_materials_masterlist'',
      tbl_description =
        ''Information on materials used to produce products and associated costs'',
      tbl_columns =
      [\<lparr>col_name = ''Country'', col_dbName = ''Country'', col_type = ''nvarchar'',
        col_description = ''Country where the product is produced and sold'',
        col_isNullable = False\<rparr>,
       \<lparr>col_name = ''Region'', col_dbName = ''Region'', col_type = ''nvarchar'',
        col_description = ''Region where the product is produced and sold'',
        col_isNullable = False\<rparr>,
       \<lparr>col_name = ''City'', col_dbName = ''City'', col_type = ''nvarchar'',
        col_description = ''City where the product is produced and sold'',
        col_isNullable = False\<rparr>,
       \<lparr>col_name = ''Product_Name'', col_dbName = ''Product_Name'', col_type = ''nvarchar'',
        col_description = ''Name of the product'',
        col_isNullable = False\<rparr>,
       \<lparr>col_name = ''Product_Price'', col_dbName = ''Product_Price'', col_type = ''decimal'',
        col_description = ''Selling price of the product'',
        col_isNullable = True\<rparr>,
       \<lparr>col_name = ''Material_Code'', col_dbName = ''Material_Code'', col_type = ''nvarchar'',
        col_description = ''Code of the material used to make the product'',
        col_isNullable = False\<rparr>,
       \<lparr>col_name = ''Material_Quantity'', col_dbName = ''Material_Quantity'', col_type = ''int'',
        col_description = ''Quantity of the material used to make the product'',
        col_isNullable = True\<rparr>,
       \<lparr>col_name = ''Material_Unit_Cost'', col_dbName = ''Material_Unit_Cost'', col_type = ''decimal'',
        col_description = ''Unit cost of the material used to make the product'',
        col_isNullable = True\<rparr>,
       \<lparr>col_name = ''Material_Shipping_Cost'', col_dbName = ''Material_Shipping_Cost'', col_type = ''decimal'',
        col_description = ''Shipping cost of the material used to make the product'',
        col_isNullable = True\<rparr>,
       \<lparr>col_name = ''total_material_cost'', col_dbName = ''total_material_cost'', col_type = ''decimal'',
        col_description = ''Total cost of the material used to make the product'',
        col_isNullable = True\<rparr>,
       \<lparr>col_name = ''total_material_shipping_cost'', col_dbName = ''total_material_shipping_cost'', col_type = ''decimal'',
        col_description = ''Total shipping cost of the material used to make the product'',
        col_isNullable = True\<rparr>]\<rparr>"

definition vehicleMasterSchema :: TableSchema where
  "vehicleMasterSchema =
     \<lparr>tbl_tableName = ''vehicle_master'', tbl_dbTableName = ''vehicle_master'',
      tbl_description = ''Information on vehicles available for delivery of products'',
      tbl_columns =
      [\<lparr>col_name = ''Country'', col_dbName = ''Country'', col_type = ''nvarchar'',
        col_description = ''Country where the vehicle is used'',
        col_isNullable = False\<rparr>,
       \<lparr>col_name = ''Region'', col_dbName = ''Region'', col_type = ''nvarchar'',
        col_description = ''Region where the vehicle is used'',
        col_isNullable = False\<rparr>,
       \<lparr>col_name = ''City'', col_dbName = ''City'', col_type = ''nvarchar'',
        col_description = ''City where the vehicle is used'',
        col_isNullable = False\<rparr>,
       \<lparr>col_name = ''Vehicle_Plate'', col_dbName = ''Vehicle_Plate'', col_type = ''nvarchar'',
        col_description = ''Plate number of the vehicle used to deliver the product'',
        col_isNullable = False\<rparr>]\<rparr>"

text \<open>
  The variables \<open>mainTable\<close> and \<open>joinTable\<close> only ever hold one of the three keys of
  \<open>schemas\<close> (or the empty text, for no join): the keys are a datatype, \<open>schemas\<close> is total
  on it, and the join table is an option.
\<close>

datatype table = sales_data | product_design | vehicle_master

fun tableKey :: "table \<Rightarrow> string" where
  "tableKey sales_data = ''sales_data''"
| "tableKey product_design = ''product_design''"
| "tableKey vehicle_master = ''vehicle_master''"

fun schemas :: "table \<Rightarrow> TableSchema" where
  "schemas sales_data = salesDataSchema"
| "schemas product_design = productDesignSchema"
| "schemas vehicle_master = vehicleMasterSchema"

section \<open>lib/sql-query-generator.ts: the natural-language query analyzer\<close>

record SelectedColumn =
  sel_tableName :: string
  sel_columnName :: string
  sel_displayName :: string
  sel_aggregate :: "string option"

definition isNumericColumn :: "Column \<Rightarrow> bool" where
  "isNumericColumn col = (col_type col = ''decimal'' \<or> col_type col = ''int'')"

text \<open>
  \<open>simplifiedQuery.includes(col.name.toLowerCase()) ||
   simplifiedQuery.includes(col.description.toLowerCase())\<close>
\<close>

definition mentions :: "string \<Rightarrow> Column \<Rightarrow> bool" where
  "mentions simplifiedQuery col =
     (includesStr simplifiedQuery (toLowerCase (col_name col))
      \<or> includesStr simplifiedQuery (toLowerCase (col_description col)))"

definition aggregateColumn :: "table \<Rightarrow> string \<Rightarrow> string \<Rightarrow> Column \<Rightarrow> SelectedColumn" where
  "aggregateColumn mainTable fn pre col =
     \<lparr>sel_tableName = tableKey mainTable, sel_columnName = col_dbName col,
      sel_displayName = pre @ col_name col, sel_aggregate = Some fn\<rparr>"

definition plainColumn :: "string \<Rightarrow> string \<Rightarrow> Column \<Rightarrow> SelectedColumn" where
  "plainColumn tableName displayName col =
     \<lparr>sel_tableName = tableName, sel_columnName = col_dbName col,
      sel_displayName = displayName, sel_aggregate = None\<rparr>"

text \<open>\<open>schema.columns.find(c => c.name.toLowerCase() === colName)\<close>\<close>

definition findColumn :: "TableSchema \<Rightarrow> string \<Rightarrow> Column option" where
  "findColumn schema colName =
     find (\<lambda>c. toLowerCase (col_name c) = colName) (tbl_columns schema)"

text \<open>The loop over default column names that pushes the first one found and breaks.\<close>

definition firstDefault :: "TableSchema \<Rightarrow> string list \<Rightarrow> Column option" where
  "firstDefault schema defaultColumns = firstSome (findColumn schema) defaultColumns"

definition isTechnical :: "Column \<Rightarrow> bool" where
  "isTechnical col = (col_name col = ''created_at'' \<or> col_name col = ''updated_at'')"

definition countColumns :: "table \<Rightarrow> string \<Rightarrow> SelectedColumn list" where
  "countColumns mainTable simplifiedQuery =
     (if includesStr simplifiedQuery ''how many'' \<or> includesStr simplifiedQuery ''count''
         \<or> includesStr simplifiedQuery ''number of''
      then [\<lparr>sel_tableName = tableKey mainTable, sel_columnName = ''COUNT(*)'',
             sel_displayName = ''record_count'', sel_aggregate = Some ''COUNT''\<rparr>]
      else [])"

definition sumColumns :: "table \<Rightarrow> string \<Rightarrow> SelectedColumn list \<Rightarrow> SelectedColumn list" where
  "sumColumns mainTable simplifiedQuery columns =
     (if includesStr simplifiedQuery ''total'' \<or> includesStr simplifiedQuery ''sum'' then
        (let schema = schemas mainTable;
             found = columns @ map (aggregateColumn mainTable ''SUM'' ''total_'')
                       (filter (\<lambda>col. isNumericColumn col \<and> mentions simplifiedQuery col)
                          (tbl_columns schema))
         in if \<not> list_ex (\<lambda>c. sel_aggregate c = Some ''SUM'') found then
              (if mainTable = sales_data then
                 (if includesStr simplifiedQuery ''sales'' then
                    (case findColumn schema ''quantity'' of
                       None \<Rightarrow> found
                     | Some col \<Rightarrow>
                         found @ [\<lparr>sel_tableName = tableKey mainTable,
                                   sel_columnName = col_dbName col,
                                   sel_displayName = ''total_quantity'',
                                   sel_aggregate = Some ''SUM''\<rparr>])
                  else
                    (case firstDefault schema [''quantity'', ''total_cost'', ''total_product_cost''] of
                       None \<Rightarrow> found
                     | Some col \<Rightarrow> found @ [aggregateColumn mainTable ''SUM'' ''total_'' col]))
               else found)
            else found)
      else columns)"

definition avgColumns :: "table \<Rightarrow> string \<Rightarrow> SelectedColumn list \<Rightarrow> SelectedColumn list" where
  "avgColumns mainTable simplifiedQuery columns =
     (if includesStr simplifiedQuery ''average'' \<or> includesStr simplifiedQuery ''avg'' then
        (let schema = schemas mainTable;
             found = columns @ map (aggregateColumn mainTable ''AVG'' ''avg_'')
                       (filter (\<lambda>col. isNumericColumn col \<and> mentions simplifiedQuery col)
                          (tbl_columns schema))
         in if \<not> list_ex (\<lambda>c. sel_aggregate c = Some ''AVG'') found then
              (if mainTable = sales_data then
                 (case firstDefault schema
                         [''unit_price'', ''total_cost'', ''delivery_duration_mins''] of
                    None \<Rightarrow> found
                  | Some col \<Rightarrow> found @ [aggregateColumn mainTable ''AVG'' ''avg_'' col])
               else found)
            else found)
      else columns)"

text \<open>The columns named in the query, unless the column already has an aggregate.\<close>

definition mentionedColumns ::
    "table \<Rightarrow> string \<Rightarrow> SelectedColumn list \<Rightarrow> SelectedColumn list" where
  "mentionedColumns mainTable simplifiedQuery columns =
     foldl (\<lambda>acc col.
          if isTechnical col then acc
          else if mentions simplifiedQuery col
                  \<and> \<not> list_ex (\<lambda>c. sel_columnName c = col_dbName col \<and> sel_aggregate c \<noteq> None) acc
          then acc @ [plainColumn (tableKey mainTable) (col_name col) col]
          else acc)
       columns (tbl_columns (schemas mainTable))"

definition joinColumns ::
    "table option \<Rightarrow> string \<Rightarrow> SelectedColumn list \<Rightarrow> SelectedColumn list" where
  "joinColumns joinTable simplifiedQuery columns =
     (case joinTable of
        None \<Rightarrow> columns
      | Some jt \<Rightarrow>
          columns @ map (\<lambda>col. plainColumn (tableKey jt) (tableKey jt @ ''_'' @ col_name col) col)
            (filter (\<lambda>col. \<not> isTechnical col \<and> mentions simplifiedQuery col)
               (tbl_columns (schemas jt))))"

definition defaultColumns :: "table \<Rightarrow> SelectedColumn list \<Rightarrow> SelectedColumn list" where
  "defaultColumns mainTable columns =
     (if length columns = 0 then
        (if mainTable = sales_data then
           concat (map (\<lambda>colName.
                     (case findColumn (schemas mainTable) (toLowerCase colName) of
                        None \<Rightarrow> []
                      | Some col \<Rightarrow> [plainColumn (tableKey mainTable) (col_name col) col]))
               [''sales_date'', ''product_name'', ''quantity'', ''unit_price'', ''total_cost''])
         else
           map (\<lambda>col. plainColumn (tableKey mainTable) (col_name col) col)
             (filter (\<lambda>col. \<not> isTechnical col) (tbl_columns (schemas mainTable))))
      else columns)"

definition determineColumns :: "string \<Rightarrow> table \<Rightarrow> table option \<Rightarrow> SelectedColumn list" where
  "determineColumns queryText mainTable joinTable =
     (let simplifiedQuery = toLowerCase queryText
      in defaultColumns mainTable
           (joinColumns joinTable simplifiedQuery
              (mentionedColumns mainTable simplifiedQuery
                 (avgColumns mainTable simplifiedQuery
                    (sumColumns mainTable simplifiedQuery
                       (countColumns mainTable simplifiedQuery))))))"

definition determineGrouping :: "string \<Rightarrow> SelectedColumn list \<Rightarrow> table \<Rightarrow> string list" where
  "determineGrouping queryText selectedColumns mainTable =
     (let simplifiedQuery = toLowerCase queryText;
          t = tableKey mainTable;
          has = (\<lambda>w. includesStr simplifiedQuery w)
      in if list_ex (\<lambda>col. sel_aggregate col \<noteq> None) selectedColumns then
           (let groupBy =
                  (if has ''by country'' then [t @ ''.country'']
                   else if has ''by region'' then [t @ ''.region'']
                   else if has ''by city'' then [t @ ''.city'']
                   else if has ''by store'' then [t @ ''.store_name'']
                   else if has ''by product'' \<or> has ''by product_name'' \<or> has ''sales by product''
                     then [t @ ''.product_name'']
                   else if has ''by month'' \<or> has ''monthly''
                     then [''FORMAT('' @ t @ ''.sales_date, '' @ [CHR 0x27] @ ''yyyy-MM''
                            @ [CHR 0x27] @ '')'']
                   else if has ''by year'' \<or> has ''yearly''
                     then [''YEAR('' @ t @ ''.sales_date)'']
                   else if has ''by quarter'' \<or> has ''quarterly''
                     then [''CONCAT(YEAR('' @ t @ ''.sales_date), '' @ [CHR 0x27] @ ''-Q''
                            @ [CHR 0x27] @ '', DATEPART(QUARTER, '' @ t @ ''.sales_date))'']
                   else if has ''by week'' \<or> has ''weekly''
                     then [''CONCAT(YEAR('' @ t @ ''.sales_date), '' @ [CHR 0x27] @ ''-''
                            @ [CHR 0x27] @ '', DATEPART(WEEK, '' @ t @ ''.sales_date))'']
                   else if has ''by day'' \<or> has ''daily''
                     then [''FORMAT('' @ t @ ''.sales_date, '' @ [CHR 0x27] @ ''yyyy-MM-dd''
                            @ [CHR 0x27] @ '')'']
                   else [])
            in if length groupBy = 0 then
                 (if has ''trend'' \<or> has ''over time'' \<or> has ''time series''
                  then [''FORMAT('' @ t @ ''.sales_date, '' @ [CHR 0x27] @ ''yyyy-MM''
                         @ [CHR 0x27] @ '')'']
                  else map (\<lambda>col. sel_tableName col @ ''.'' @ sel_columnName col)
                         (filter (\<lambda>col. sel_aggregate col = None) selectedColumns))
               else groupBy)
         else [])"

text \<open>
  The intent that \<open>generateSqlQuery\<close> derives from the question, once the database has
  answered the health check: the tables, whether the query aggregates, the selected
  columns and the grouping. (Filters, sorting and limit are derived after these and
  change none of them; they are not modelled.)
\<close>

record QueryIntent =
  mainTable :: table
  joinTable :: "table option"
  isAggregated :: bool
  selectedColumns :: "SelectedColumn list"
  groupBy :: "string list"

definition selectMainTable :: "string \<Rightarrow> table" where
  "selectMainTable simplifiedQuery =
     (if includesStr simplifiedQuery ''product'' \<and> includesStr simplifiedQuery ''material''
        then product_design
      else if includesStr simplifiedQuery ''vehicle''
              \<or> (includesStr simplifiedQuery ''delivery'' \<and> includesStr simplifiedQuery ''plate'')
        then vehicle_master
      else sales_data)"

definition selectJoinTable :: "table \<Rightarrow> string \<Rightarrow> table option" where
  "selectJoinTable main simplifiedQuery =
     (if main = sales_data then
        (if includesStr simplifiedQuery ''material''
            \<or> includesStr simplifiedQuery ''product price''
            \<or> includesStr simplifiedQuery ''product cost'' then Some product_design
         else if includesStr simplifiedQuery ''vehicle''
                 \<and> \<not> includesStr simplifiedQuery ''delivery plate'' then Some vehicle_master
         else None)
      else None)"

definition queryIntent :: "string \<Rightarrow> QueryIntent" where
  "queryIntent userQuery =
     (let simplifiedQuery = toLowerCase userQuery;
          main = selectMainTable simplifiedQuery;
          joined = selectJoinTable main simplifiedQuery;
          isSalesByProduct =
            (includesStr simplifiedQuery ''sales by product''
             \<or> (includesStr simplifiedQuery ''sales'' \<and> includesStr simplifiedQuery ''product''));
          needsAggregation =
            (includesStr simplifiedQuery ''total'' \<or> includesStr simplifiedQuery ''average''
             \<or> includesStr simplifiedQuery ''sum'' \<or> includesStr simplifiedQuery ''count''
             \<or> includesStr simplifiedQuery ''min'' \<or> includesStr simplifiedQuery ''max''
             \<or> includesStr simplifiedQuery ''group by'' \<or> isSalesByProduct);
          determined = determineColumns simplifiedQuery main joined;
          selected =
            (if isSalesByProduct \<and> \<not> list_ex (\<lambda>col. sel_aggregate col \<noteq> None) determined then
               (case findColumn (schemas main) ''quantity'' of
                  None \<Rightarrow> determined
                | Some quantityCol \<Rightarrow>
                    determined @ [\<lparr>sel_tableName = tableKey main,
                                    sel_columnName = col_dbName quantityCol,
                                    sel_displayName = ''total_quantity'',
                                    sel_aggregate = Some ''SUM''\<rparr>])
             else determined);
          grouping = determineGrouping simplifiedQuery selected main
      in \<lparr>mainTable = main, joinTable = joined, isAggregated = needsAggregation,
          selectedColumns = selected,
          groupBy = (if isSalesByProduct \<and> length grouping = 0
                     then grouping @ [tableKey main @ ''.product_name''] else grouping)\<rparr>)"

text \<open>A selected column that is the \<open>SUM\<close> of column \<open>col\<close> of table \<open>t\<close>.\<close>

definition sumOn :: "table \<Rightarrow> Column \<Rightarrow> SelectedColumn \<Rightarrow> bool" where
  "sumOn t col c =
     (sel_aggregate c = Some ''SUM'' \<and> sel_tableName c = tableKey t
      \<and> sel_columnName c = col_dbName col)"

section \<open>app/api/finance/route.ts: the responses of POST\<close>

text \<open>
  The JSON body of a request. An object is the list of the members of its text; of the
  members with one key, \<open>JSON.parse\<close> keeps the last. Truthiness of a number is a
  parameter (\<open>nonZero\<close>).
\<close>

datatype 'n json =
  JsonNull | JsonBool bool | JsonNumber 'n | JsonString string
| JsonArray "'n json list" | JsonObject "(string \<times> 'n json) list"

text \<open>\<open>v.key\<close> on a value that is not \<open>null\<close>; \<open>None\<close> is \<open>undefined\<close>.\<close>

fun jsonMember :: "'n json \<Rightarrow> string \<Rightarrow> 'n json option" where
  "jsonMember (JsonObject props) key = map_of (rev props) key"
| "jsonMember _ key = None"

fun truthyJson :: "('n \<Rightarrow> bool) \<Rightarrow> 'n json \<Rightarrow> bool" where
  "truthyJson nonZero JsonNull = False"
| "truthyJson nonZero (JsonBool b) = b"
| "truthyJson nonZero (JsonNumber n) = nonZero n"
| "truthyJson nonZero (JsonString s) = (s \<noteq> [])"
| "truthyJson nonZero (JsonArray _) = True"
| "truthyJson nonZero (JsonObject _) = True"

definition truthyField :: "('n \<Rightarrow> bool) \<Rightarrow> 'n json option \<Rightarrow> bool" where
  "truthyField nonZero v = (case v of None \<Rightarrow> False | Some j \<Rightarrow> truthyJson nonZero j)"

text \<open>
  What raises outside of the LLM client: an \<open>Error\<close> with its message, or a value that
  is not an \<open>Error\<close>. No authentication error of the LLM client comes from there: its
  follow-up calls are made inside \<open>try\<close> blocks of their own.
\<close>

datatype failure = RaisedError string | RaisedValue

fun raised :: "failure \<Rightarrow> thrown" where
  "raised (RaisedError m) = OtherError m"
| "raised RaisedValue = NotAnError"

datatype 'p responseBody = ErrorBody string "string option" | Payload 'p

record 'p response =
  res_status :: nat
  res_body :: "'p responseBody"

datatype 'n messageContent =
  Plain "'n json option"
| WithFileText "'n json option" string "'n json option"
| WithImage "'n json" "'n json" "'n json option"

record 'n anthropicMessage =
  msg_role :: "'n json option"
  msg_content :: "'n messageContent"

record 'n chatRequest =
  chat_model :: "'n json"
  chat_messages :: "'n anthropicMessage list"

text \<open>
  The surroundings of \<open>POST\<close>: \<open>req.json()\<close> raises or yields the body; decoding the text
  of a file (\<open>atob\<close>, \<open>escape\<close>, \<open>decodeURIComponent\<close>) may raise (\<open>None\<close>); the upstream
  call raises or yields a reply; and what \<open>POST\<close> does with the reply (lines 2090 to 2676:
  the query, the grounding step, the chart) raises or yields the payload of the
  response. The last is a parameter here: the steps of it that the claims are about are
  modelled on their own above.

  Before the upstream call \<open>POST\<close> itself raises a \<open>TypeError\<close> in two places: the
  destructuring of a body that is \<open>null\<close>, and \<open>msg.role\<close> on a message that is \<open>null\<close>.
  The \<open>catch\<close> clause sends the message of the error, which is the text the JavaScript
  engine gives it: the two texts are parameters (\<open>destructuringNull\<close>, \<open>readingOfNull\<close>).
\<close>

record ('n, 'r, 'p) surroundings =
  req_json :: "failure + 'n json"
  nonZero :: "'n \<Rightarrow> bool"
  decodeText :: "'n json \<Rightarrow> string option"
  destructuringNull :: string
  readingOfNull :: string
  messages_create :: "'n chatRequest \<Rightarrow> thrown + 'r"
  processReply :: "'r \<Rightarrow> failure + 'p"

definition badRequest :: "string \<Rightarrow> 'p response" where
  "badRequest msg = \<lparr>res_status = 400, res_body = ErrorBody msg None\<rparr>"

text \<open>The \<open>catch\<close> clause of \<open>POST\<close>.\<close>

definition errorResponse :: "thrown \<Rightarrow> 'p response" where
  "errorResponse err =
     (case err of
        AuthenticationError _ \<Rightarrow>
          \<lparr>res_status = 401,
           res_body = ErrorBody ''Authentication Error''
                    (Some ''Invalid API key or authentication failed'')\<rparr>
      | _ \<Rightarrow>
          \<lparr>res_status = 500,
           res_body = ErrorBody (if isError err then message err
                             else ''An unknown error occurred'') None\<rparr>)"

text \<open>
  \<open>messages.map(msg => ({role: msg.role, content: msg.content}))\<close>: reading a property
  of \<open>null\<close> raises a \<open>TypeError\<close>, an \<open>Error\<close> with the message of the engine.
\<close>

definition convertMessages ::
    "('n, 'r, 'p) surroundings \<Rightarrow> 'n json list \<Rightarrow> thrown + 'n anthropicMessage list" where
  "convertMessages env msgs =
     (if JsonNull \<in> set msgs then Inl (OtherError (readingOfNull env))
      else Inr (map (\<lambda>msg. \<lparr>msg_role = jsonMember msg ''role'',
                             msg_content = Plain (jsonMember msg ''content'')\<rparr>) msgs))"

text \<open>
  The file of the latest message. The result is a response with status 400, or the
  messages to send. Inside the \<open>try\<close>, \<open>messages[messages.length - 1].content\<close> raises
  when there is no message, and \<open>mediaType.startsWith\<close> raises when the media type is
  not a string.
\<close>

definition attachFile ::
    "('n, 'r, 'p) surroundings \<Rightarrow> 'n json option \<Rightarrow> 'n json list \<Rightarrow> 'n anthropicMessage list
       \<Rightarrow> 'p response + 'n anthropicMessage list" where
  "attachFile env fileData msgs anthropicMessages =
     (case fileData of
        None \<Rightarrow> Inr anthropicMessages
      | Some fd \<Rightarrow>
          if \<not> truthyJson (nonZero env) fd then Inr anthropicMessages
          else
            (let base64 = jsonMember fd ''base64''; mediaType = jsonMember fd ''mediaType'';
                 isText = jsonMember fd ''isText''; fileName = jsonMember fd ''fileName''
             in case base64 of
                  None \<Rightarrow> Inl (badRequest ''No file data'')
                | Some b64 \<Rightarrow>
                    if \<not> truthyJson (nonZero env) b64 then Inl (badRequest ''No file data'')
                    else if truthyField (nonZero env) isText then
                      (case decodeText env b64 of
                         None \<Rightarrow> Inl (badRequest ''Failed to process file content'')
                       | Some textContent \<Rightarrow>
                           if msgs = [] then Inl (badRequest ''Failed to process file content'')
                           else Inr (butlast anthropicMessages @
                                  [\<lparr>msg_role = Some (JsonString ''user''),
                                    msg_content = WithFileText fileName textContent
                                                    (jsonMember (last msgs) ''content'')\<rparr>]))
                    else
                      (case mediaType of
                         Some (JsonString mt) \<Rightarrow>
                           if startsWith mt ''image/'' then
                             (if msgs = [] then Inl (badRequest ''Failed to process file content'')
                              else Inr (butlast anthropicMessages @
                                     [\<lparr>msg_role = Some (JsonString ''user''),
                                       msg_content = WithImage (JsonString mt) b64
                                                       (jsonMember (last msgs) ''content'')\<rparr>]))
                           else Inr anthropicMessages
                       | _ \<Rightarrow> Inl (badRequest ''Failed to process file content''))))"

text \<open>
  Everything before the upstream call: a response (400, or 500 for what is raised), or
  the request to send. The destructuring gives \<open>model\<close> its default when the field is
  missing.
\<close>

definition prepareRequest ::
    "('n, 'r, 'p) surroundings \<Rightarrow> 'p response + 'n chatRequest" where
  "prepareRequest env =
     (case req_json env of
        Inl f \<Rightarrow> Inl (errorResponse (raised f))
      | Inr JsonNull \<Rightarrow> Inl (errorResponse (OtherError (destructuringNull env)))
      | Inr requestBody \<Rightarrow>
          (let messages = jsonMember requestBody ''messages'';
               fileData = jsonMember requestBody ''fileData'';
               model = (case jsonMember requestBody ''model'' of
                          None \<Rightarrow> JsonString ''claude-3-haiku-20240307''
                        | Some m \<Rightarrow> m)
           in case messages of
                Some (JsonArray msgs) \<Rightarrow>
                  if \<not> truthyJson (nonZero env) model
                  then Inl (badRequest ''Model selection is required'')
                  else
                    (case convertMessages env msgs of
                       Inl err \<Rightarrow> Inl (errorResponse err)
                     | Inr anthropicMessages \<Rightarrow>
                         (case attachFile env fileData msgs anthropicMessages of
                            Inl resp \<Rightarrow> Inl resp
                          | Inr toSend \<Rightarrow>
                              Inr \<lparr>chat_model = model, chat_messages = toSend\<rparr>))
              | _ \<Rightarrow> Inl (badRequest ''Messages array is required'')))"

definition POST :: "('n, 'r, 'p) surroundings \<Rightarrow> 'p response" where
  "POST env =
     (case prepareRequest env of
        Inl resp \<Rightarrow> resp
      | Inr request \<Rightarrow>
          (case messages_create env request of
             Inl err \<Rightarrow> errorResponse err
           | Inr reply \<Rightarrow>
               (case processReply env reply of
                  Inl f \<Rightarrow> errorResponse (raised f)
                | Inr payload \<Rightarrow> \<lparr>res_status = 200, res_body = Payload payload\<rparr>)))"

section \<open>app/api/finance/route.ts: prepareChartDataForFrontend\<close>

definition colorPalette :: "string list" where
  "colorPalette = [''#3366CC'', ''#DC3912'', ''#FF9900'', ''#109618'', ''#990099'',
     ''#0099C6'', ''#DD4477'', ''#66AA00'', ''#B82E2E'', ''#316395'']"

text \<open>\<open>Object.keys(chartData.data[0])\<close> and the fields of a type among them.\<close>

definition fieldsOfType :: "string \<Rightarrow> 'n row \<Rightarrow> string list" where
  "fieldsOfType ty row0 = filter (\<lambda>field. typeof (getProp row0 field) = ty) (map fst row0)"

text \<open>"Ensure we have a title".\<close>

definition withTitle :: "'n row \<Rightarrow> chartOptions \<Rightarrow> chartOptions" where
  "withTitle row0 config =
     (if \<not> truthy (cfg_title config) then
        (let numericFields = fieldsOfType ''number'' row0;
             categoryFields = filter (\<lambda>field. \<not> includesStr field ''date''
                                         \<and> \<not> includesStr field ''time'')
                                (fieldsOfType ''string'' row0)
         in if length numericFields > 0 \<and> length categoryFields > 0
            then config\<lparr>cfg_title := Some (replaceAllChar (CHR ''_'') '' '' (hd numericFields)
                           @ '' by '' @ replaceAllChar (CHR ''_'') '' '' (hd categoryFields))\<rparr>
            else config\<lparr>cfg_title := Some ''Data Analysis''\<rparr>)
      else config)"

text \<open>"Handle xAxisKey": the first field of a row without fields is \<open>undefined\<close>.\<close>

definition inferredXAxisKey :: "'n row \<Rightarrow> string option" where
  "inferredXAxisKey row0 =
     (let categoryFields = filter (\<lambda>field. field \<noteq> ''value'' \<and> field \<noteq> ''segment'')
                             (fieldsOfType ''string'' row0)
      in if length categoryFields > 0 then Some (hd categoryFields)
         else headOption (map fst row0))"

definition withXAxisKey :: "'n row \<Rightarrow> chartOptions \<Rightarrow> chartOptions" where
  "withXAxisKey row0 config =
     (if \<not> truthy (cfg_xAxisKey config)
      then config\<lparr>cfg_xAxisKey := inferredXAxisKey row0\<rparr>
      else config)"

text \<open>The numeric fields other than the x-axis key.\<close>

definition seriesFields :: "'n row \<Rightarrow> string option \<Rightarrow> string list" where
  "seriesFields row0 xAxisKey =
     filter (\<lambda>field. Some field \<noteq> xAxisKey) (fieldsOfType ''number'' row0)"

text \<open>"Fix chart series configuration for bar charts".\<close>

definition barSeries ::
    "string \<Rightarrow> 'n row \<Rightarrow> chartOptions \<Rightarrow> (string \<times> series) list \<Rightarrow> (string \<times> series) list" where
  "barSeries chartType row0 config chartConfig =
     (if chartType = ''bar'' \<and> length chartConfig = 0 then
        (let numericFields = seriesFields row0 (cfg_xAxisKey config)
         in if length numericFields > 0
            then setProp chartConfig (hd numericFields)
                   (emptySeries\<lparr>series_dataKey := Some (hd numericFields),
                      series_name := Some (replaceAllChar (CHR ''_'') '' '' (hd numericFields)),
                      series_color := Some ''#3366CC''\<rparr>)
            else chartConfig)
      else chartConfig)"

text \<open>"Ensure all series have colors", and a \<open>dataKey\<close>.\<close>

definition ensureColor :: "nat \<Rightarrow> string \<Rightarrow> series \<Rightarrow> series" where
  "ensureColor index key config =
     (let coloured = (if \<not> truthy (series_color config)
                      then config\<lparr>series_color := Some (colorPalette ! (index mod length colorPalette))\<rparr>
                      else config)
      in if \<not> truthy (series_dataKey coloured)
         then coloured\<lparr>series_dataKey := Some key\<rparr> else coloured)"

definition ensureColors :: "(string \<times> series) list \<Rightarrow> (string \<times> series) list" where
  "ensureColors chartConfig =
     map (\<lambda>(index, key, config). (key, ensureColor index key config)) (enumerate 0 chartConfig)"

text \<open>"Handle pie charts with special formatting".\<close>

definition hasCorrectFormat :: "'n row list \<Rightarrow> bool" where
  "hasCorrectFormat rows =
     list_all (\<lambda>item. ''segment'' \<in> fst ` set item \<and> ''value'' \<in> fst ` set item) rows"

text \<open>The data are reshaped when they are not in the format and the fields are found.\<close>

definition needsReshape :: "'n row \<Rightarrow> 'n row list \<Rightarrow> chartOptions \<Rightarrow> bool" where
  "needsReshape row0 rows config =
     (\<not> hasCorrectFormat rows \<and> length (seriesFields row0 (cfg_xAxisKey config)) > 0
      \<and> truthy (cfg_xAxisKey config))"

definition withTotalLabel :: "chartOptions \<Rightarrow> chartOptions" where
  "withTotalLabel config =
     (if \<not> truthy (cfg_totalLabel config) then config\<lparr>cfg_totalLabel := Some ''Total''\<rparr>
      else config)"

definition pieFormat ::
    "string \<Rightarrow> 'n row \<Rightarrow> 'n row list \<times> chartOptions \<times> (string \<times> series) list
       \<Rightarrow> 'n row list \<times> chartOptions \<times> (string \<times> series) list" where
  "pieFormat chartType row0 state =
     (case state of (rows, config, chartConfig) \<Rightarrow>
        if chartType = ''pie'' then
          (if needsReshape row0 rows config then
             (let valueKey = hd (seriesFields row0 (cfg_xAxisKey config))
              in (map (\<lambda>item. [(''segment'', getProp item (keyText (cfg_xAxisKey config))),
                                 (''value'', getProp item valueKey)]) rows,
                  withTotalLabel (config\<lparr>cfg_xAxisKey := Some ''segment''\<rparr>),
                  [(''value'',
                    emptySeries\<lparr>series_dataKey := Some ''value'',
                      series_name := Some (replaceAllChar (CHR ''_'') '' '' valueKey),
                      series_color := Some (colorPalette ! 0)\<rparr>)]))
           else (rows, withTotalLabel config, chartConfig))
        else (rows, config, chartConfig))"

text \<open>"Ensure there's a common dataKey in series config".\<close>

definition commonDataKey :: "(string \<times> series) list \<Rightarrow> (string \<times> series) list" where
  "commonDataKey chartConfig =
     map (\<lambda>(key, config).
            (key, if \<not> truthy (series_dataKey config) \<and> length chartConfig > 0
                  then config\<lparr>series_dataKey := Some (fst (hd chartConfig))\<rparr> else config))
       chartConfig"

text \<open>"Add margin if missing".\<close>

definition withMargin :: "chartOptions \<Rightarrow> chartOptions" where
  "withMargin config =
     (case cfg_margin config of
        None \<Rightarrow> config\<lparr>cfg_margin := Some \<lparr>margin_top = 20, margin_right = 30,
                                           margin_bottom = 50, margin_left = 60\<rparr>\<rparr>
      | Some _ \<Rightarrow> config)"

text \<open>
  The function changes its argument in place and returns it, or returns \<open>null\<close>: the
  model returns the new chart, or \<open>None\<close>. The data are missing (\<open>None\<close>) when the field
  is absent or is not an array.
\<close>

definition prepareChartDataForFrontend :: "'n chart option \<Rightarrow> 'n chart option" where
  "prepareChartDataForFrontend chartData =
     (case chartData of
        None \<Rightarrow> None
      | Some chart \<Rightarrow>
          (let chartType = (if \<not> truthy (chart_chartType chart) then Some ''bar''
                            else chart_chartType chart)
           in case chart_data chart of
                None \<Rightarrow> None
              | Some [] \<Rightarrow> None
              | Some (row0 # rest) \<Rightarrow>
                  (let config0 = (case chart_config chart of None \<Rightarrow> emptyOptions | Some c \<Rightarrow> c);
                       chartConfig0 = (case chart_chartConfig chart of None \<Rightarrow> [] | Some c \<Rightarrow> c);
                       config1 = withXAxisKey row0 (withTitle row0 config0);
                       chartConfig1 =
                         ensureColors (barSeries (keyText chartType) row0 config1 chartConfig0);
                       (rows, config2, chartConfig2) =
                         pieFormat (keyText chartType) row0 (row0 # rest, config1, chartConfig1)
                   in Some \<lparr>chart_chartType = chartType, chart_data = Some rows,
                            chart_config = Some (withMargin config2),
                            chart_chartConfig = Some (commonDataKey chartConfig2)\<rparr>)))"

text \<open>
  What holds of a chart that has been through the pass, stated for the proof that a
  second pass changes nothing.
\<close>

definition seriesSettled :: "(string \<times> series) list \<Rightarrow> bool" where
  "seriesSettled chartConfig =
     list_all (\<lambda>(key, config).
        truthy (series_color config)
        \<and> (truthy (series_dataKey config)
            \<or> (series_dataKey config = Some [] \<and> key = [] \<and> fst (hd chartConfig) = [])))
       chartConfig"

definition settled ::
    "string \<Rightarrow> 'n row list \<Rightarrow> chartOptions \<Rightarrow> (string \<times> series) list \<Rightarrow> bool" where
  "settled chartType rows config chartConfig =
     (rows \<noteq> [] \<and> chartType \<noteq> []
      \<and> truthy (cfg_title config)
      \<and> withXAxisKey (hd rows) config = config
      \<and> barSeries chartType (hd rows) config chartConfig = chartConfig
      \<and> seriesSettled chartConfig
      \<and> pieFormat chartType (hd rows) (rows, config, chartConfig) = (rows, config, chartConfig)
      \<and> cfg_margin config \<noteq> None)"

section \<open>Lower-casing\<close>

lemma smallLetters_not_capital: "\<forall>c \<in> set smallLetters. c \<notin> set capitalLetters"
  by code_simp

lemma lowerChar_idem: "lowerChar (lowerChar c) = lowerChar c"
proof (cases "map_of (zip capitalLetters smallLetters) c")
  case None
  then show ?thesis by (simp add: lowerChar_def)
next
  case (Some d)
  then have "d \<in> set smallLetters"
    by (meson map_of_SomeD set_zip_rightD)
  with smallLetters_not_capital have "d \<notin> set capitalLetters"
    by blast
  then have "map_of (zip capitalLetters smallLetters) d = None"
    by (auto simp: map_of_eq_None_iff dest: set_zip_leftD)
  with Some show ?thesis by (simp add: lowerChar_def)
qed

lemma toLowerCase_idem: "toLowerCase (toLowerCase s) = toLowerCase s"
  by (simp add: toLowerCase_def lowerChar_idem)

lemma toLowerCase_trim: "toLowerCase (trim (toLowerCase s)) = trim (toLowerCase s)"
proof -
  have "set (trim (toLowerCase s)) \<subseteq> set (toLowerCase s)"
    by (auto simp: trim_def dest!: set_dropWhileD)
  then have "\<forall>c \<in> set (trim (toLowerCase s)). lowerChar c = c"
    by (auto simp: toLowerCase_def lowerChar_idem)
  then show ?thesis
    unfolding toLowerCase_def by (simp add: map_idI)
qed

lemma includesStr_toLowerCase:
  "includesStr s t \<Longrightarrow> includesStr (toLowerCase s) (toLowerCase t)"
  unfolding includesStr_def toLowerCase_def sublist_def
  by (metis map_append)

section \<open>Placeholders are consumed left to right\<close>

lemma digitChar_not_question: "d < 10 \<Longrightarrow> digitChar d \<noteq> CHR ''?''"
  unfolding digitChar_def by (auto simp: less_Suc_eq numeral_eq_Suc nth_Cons')

lemma digitsOf_no_question: "CHR ''?'' \<notin> set (digitsOf n)"
proof (induction n rule: digitsOf.induct)
  case (1 n)
  show ?case
  proof (cases "n < 10")
    case True
    then show ?thesis
      using digitChar_not_question [of n] by (subst digitsOf.simps) auto
  next
    case False
    have "n mod 10 < 10" by simp
    then have "digitChar (n mod 10) \<noteq> CHR ''?''" by (rule digitChar_not_question)
    with False "1.IH" show ?thesis
      by (subst digitsOf.simps) auto
  qed
qed

lemma replaceStr_skip:
  "CHR ''?'' \<notin> set pre \<Longrightarrow> replaceStr (pre @ s) ''?'' r = pre @ replaceStr s ''?'' r"
  by (induction pre) auto

lemma replaceStr_question_Cons:
  "replaceStr (c # cs) ''?'' r = (if c = CHR ''?'' then r @ cs else c # replaceStr cs ''?'' r)"
  by simp

lemma substitutePlaceholders_none:
  "CHR ''?'' \<notin> set s \<Longrightarrow> substitutePlaceholders i s = s"
  by (induction s) auto

lemma substitutePlaceholders_skip:
  "CHR ''?'' \<notin> set pre \<Longrightarrow>
   substitutePlaceholders i (pre @ s) = pre @ substitutePlaceholders i s"
  by (induction pre) auto

lemma replace_loop:
  "CHR ''?'' \<notin> set pre \<Longrightarrow> placeholders s = k \<Longrightarrow>
   foldl (\<lambda>q index. replaceStr q ''?'' (''@p'' @ digitsOf index)) (pre @ s) [i..<i + k]
     = pre @ substitutePlaceholders i s"
proof (induction k arbitrary: pre s i)
  case 0
  then have "CHR ''?'' \<notin> set s"
    by (auto simp: placeholders_def filter_empty_conv)
  then show ?case by (simp add: substitutePlaceholders_none)
next
  case (Suc k)
  from Suc.prems(2) have "CHR ''?'' \<in> set s"
    by (auto simp: placeholders_def filter_empty_conv dest!: arg_cong [where f = "\<lambda>n. n = 0"])
  then obtain a b where s: "s = a @ CHR ''?'' # b" and a: "CHR ''?'' \<notin> set a"
    by (auto dest: split_list_first)
  let ?r = "''@p'' @ digitsOf i"
  let ?pre = "pre @ a @ ?r"
  have pre': "CHR ''?'' \<notin> set ?pre"
    using Suc.prems(1) a digitsOf_no_question [of i] by auto
  have "filter (\<lambda>c. c = CHR ''?'') a = []"
    using a by (auto simp: filter_empty_conv)
  then have b: "placeholders b = k"
    using Suc.prems(2) by (simp add: s placeholders_def)
  have step: "replaceStr (pre @ s) ''?'' ?r = ?pre @ b"
    using Suc.prems(1) a
    by (simp add: s replaceStr_skip [of "pre @ a", simplified] del: replaceStr.simps
        add: replaceStr_question_Cons)
  have idx: "[i..<i + Suc k] = i # [Suc i..<Suc i + k]"
    by (simp add: upt_conv_Cons)
  have "foldl (\<lambda>q index. replaceStr q ''?'' (''@p'' @ digitsOf index)) (pre @ s) [i..<i + Suc k]
        = foldl (\<lambda>q index. replaceStr q ''?'' (''@p'' @ digitsOf index)) (?pre @ b)
            [Suc i..<Suc i + k]"
    unfolding idx using step by simp
  also have "\<dots> = ?pre @ substitutePlaceholders (Suc i) b"
    using Suc.IH [OF pre' b] .
  also have "\<dots> = pre @ substitutePlaceholders i s"
    using a by (simp add: s substitutePlaceholders_skip)
  finally show ?case .
qed

text \<open>
  C8. When the SQL text has exactly as many question marks as there are parameters,
  \<open>query\<close> registers parameter \<open>i\<close> under the name \<open>p<i>\<close>, in the order given, and
  runs the text in which the \<open>i\<close>-th question mark from the left has become \<open>@p<i>\<close>.
\<close>

theorem query_placeholders_positional:
  assumes "placeholders queryText = length params"
  shows "preparedQuery queryText params = substitutePlaceholders 0 queryText
       \<and> requestInputs params
           = zip (map (\<lambda>i. ''p'' @ digitsOf i) [0..<length params]) params
       \<and> (getPool db = None \<longrightarrow>
            query db queryText params =
              runQuery db (zip (map (\<lambda>i. ''p'' @ digitsOf i) [0..<length params]) params)
                (substitutePlaceholders 0 queryText))"
proof -
  have p: "preparedQuery queryText params = substitutePlaceholders 0 queryText"
    using replace_loop [of "[]" queryText "length params" 0] assms
    by (simp add: preparedQuery_def)
  have z: "requestInputs params
             = zip (map (\<lambda>i. ''p'' @ digitsOf i) [0..<length params]) params"
    by (rule nth_equalityI) (simp_all add: requestInputs_def)
  show ?thesis
    using p z by (simp add: query_def)
qed

theorem query_placeholders_positional_witness:
  "placeholders ''SELECT * FROM t WHERE a = ? AND b > ?'' = length [''x'', ''y'']
   \<and> preparedQuery ''SELECT * FROM t WHERE a = ? AND b > ?'' [''x'', ''y'']
       = ''SELECT * FROM t WHERE a = @p0 AND b > @p1''
   \<and> requestInputs [''x'', ''y''] = [(''p0'', ''x''), (''p1'', ''y'')]
   \<and> query \<lparr>getPool = None, runQuery = (\<lambda>inputs text. Inr (Some [(inputs, text)]))\<rparr>
        ''SELECT * FROM t WHERE a = ? AND b > ?'' [''x'', ''y'']
       = Inr (Some [([(''p0'', ''x''), (''p1'', ''y'')],
                     ''SELECT * FROM t WHERE a = @p0 AND b > @p1'')])"
proof -
  let ?db = "\<lparr>getPool = None, runQuery = (\<lambda>inputs text. Inr (Some [(inputs, text)]))\<rparr>
              :: (string, (string \<times> string) list \<times> string) driver"
  have h: "placeholders ''SELECT * FROM t WHERE a = ? AND b > ?'' = length [''x'', ''y'']"
    by code_simp
  have r: "substitutePlaceholders 0 ''SELECT * FROM t WHERE a = ? AND b > ?''
             = ''SELECT * FROM t WHERE a = @p0 AND b > @p1''"
    by code_simp
  have z: "zip (map (\<lambda>i. ''p'' @ digitsOf i) [0..<length [''x'', ''y'']]) [''x'', ''y'']
             = [(''p0'', ''x''), (''p1'', ''y'')]"
    by code_simp
  have g: "getPool ?db = None"
    by simp
  note t = query_placeholders_positional [OF h, of ?db, unfolded r z]
  from t g have "query ?db ''SELECT * FROM t WHERE a = ? AND b > ?'' [''x'', ''y'']
                   = Inr (Some [([(''p0'', ''x''), (''p1'', ''y'')],
                                 ''SELECT * FROM t WHERE a = @p0 AND b > @p1'')])"
    by simp
  with t h show ?thesis by blast
qed

section \<open>executeNaturalLanguageQuery always returns a result object\<close>

text \<open>
  C7. \<open>executeNaturalLanguageQuery\<close> has a result object on every path (the model is a
  total function into the result objects, the \<open>catch\<close> clause being one of its branches):
  with the \<open>sql\<close> field absent or empty the result is the failure "No SQL query provided";
  when running the statement raises, the result is a failure carrying the message of the
  error; and the result is a success exactly when the statement ran, its data being the
  rows returned and \<open>rowCount\<close> their number.
\<close>

theorem executeNaturalLanguageQuery_never_throws:
  fixes db :: "('p, 'r) driver" and queryData :: "'p queryData"
  defines "ps \<equiv> (case input_params queryData of None \<Rightarrow> [] | Some l \<Rightarrow> l)"
  shows "(input_sql queryData = None \<or> input_sql queryData = Some [] \<longrightarrow>
            executeNaturalLanguageQuery db queryData
              = Failure ''No SQL query provided'' ''Failed to generate SQL query'')
       \<and> (\<forall>s err. input_sql queryData = Some s \<and> s \<noteq> [] \<and> query db s ps = Inl err \<longrightarrow>
            \<not> success (executeNaturalLanguageQuery db queryData)
            \<and> resultError (executeNaturalLanguageQuery db queryData)
                = (if isError err then message err else ''Unknown error occurred''))
       \<and> (success (executeNaturalLanguageQuery db queryData) \<longleftrightarrow>
            (\<exists>s result. input_sql queryData = Some s \<and> s \<noteq> [] \<and> query db s ps = Inr result))
       \<and> (\<forall>s result. input_sql queryData = Some s \<and> s \<noteq> [] \<and> query db s ps = Inr result \<longrightarrow>
            resultData (executeNaturalLanguageQuery db queryData)
              = (case result of None \<Rightarrow> [] | Some rows \<Rightarrow> rows)
            \<and> rowCount (executeNaturalLanguageQuery db queryData)
                = length (resultData (executeNaturalLanguageQuery db queryData)))"
  unfolding ps_def executeNaturalLanguageQuery_def errorMessage_def
  by (cases "input_sql queryData") (auto simp: Let_def split: sum.splits option.splits)

theorem executeNaturalLanguageQuery_never_throws_witness:
  "executeNaturalLanguageQuery
      \<lparr>getPool = None, runQuery = (\<lambda>inputs text. Inr (Some [1::nat, 2, 3]))\<rparr>
      \<lparr>input_query = Some ''all sales'', input_sql = Some ''SELECT 1'',
       input_params = (None :: nat list option)\<rparr>
     = Success [1, 2, 3] 3 ''This query retrieves data from the database'' ''SELECT 1''
   \<and> resultError (executeNaturalLanguageQuery
        \<lparr>getPool = Some (OtherError ''Login failed''),
         runQuery = (\<lambda>inputs text. Inr (Some [1::nat]))\<rparr>
        \<lparr>input_query = Some ''all sales'', input_sql = Some ''SELECT 1'',
         input_params = (None :: nat list option)\<rparr>) = ''Login failed''
   \<and> executeNaturalLanguageQuery
        \<lparr>getPool = None, runQuery = (\<lambda>inputs text. Inr (Some [1::nat]))\<rparr>
        \<lparr>input_query = Some ''all sales'', input_sql = None,
         input_params = (None :: nat list option)\<rparr>
       = Failure ''No SQL query provided'' ''Failed to generate SQL query''"
proof -
  let ?ok = "\<lparr>getPool = None, runQuery = (\<lambda>inputs text. Inr (Some [1::nat, 2, 3]))\<rparr>
               :: (nat, nat) driver"
  let ?down = "\<lparr>getPool = Some (OtherError ''Login failed''),
                 runQuery = (\<lambda>inputs text. Inr (Some [1::nat]))\<rparr> :: (nat, nat) driver"
  let ?okB = "\<lparr>getPool = None, runQuery = (\<lambda>inputs text. Inr (Some [1::nat]))\<rparr>
               :: (nat, nat) driver"
  let ?q = "\<lparr>input_query = Some ''all sales'', input_sql = Some ''SELECT 1'',
              input_params = (None :: nat list option)\<rparr>"
  let ?noSql = "\<lparr>input_query = Some ''all sales'', input_sql = None,
               input_params = (None :: nat list option)\<rparr>"
  have run: "query ?ok ''SELECT 1'' [] = Inr (Some [1, 2, 3])"
    by (simp add: query_def)
  have fail: "query ?down ''SELECT 1'' [] = Inl (OtherError ''Login failed'')"
    by (simp add: query_def)
  have e: "queryExplanation ''SELECT 1'' = ''This query retrieves data from the database''"
    by code_simp
  have a: "resultError (executeNaturalLanguageQuery ?down ?q) = ''Login failed''"
    using executeNaturalLanguageQuery_never_throws [of ?q ?down] fail by simp
  have b: "executeNaturalLanguageQuery ?okB ?noSql
             = Failure ''No SQL query provided'' ''Failed to generate SQL query''"
    using executeNaturalLanguageQuery_never_throws [of ?noSql ?okB] by simp
  have c: "success (executeNaturalLanguageQuery ?ok ?q)
           \<and> resultData (executeNaturalLanguageQuery ?ok ?q) = [1, 2, 3]
           \<and> rowCount (executeNaturalLanguageQuery ?ok ?q) = 3"
    using executeNaturalLanguageQuery_never_throws [of ?q ?ok] run by simp
  have d: "executeNaturalLanguageQuery ?ok ?q
             = Success [1, 2, 3] 3 ''This query retrieves data from the database'' ''SELECT 1''"
    using c run e by (simp add: executeNaturalLanguageQuery_def)
  from a b d show ?thesis by blast
qed

section \<open>The follow-up explanation\<close>

text \<open>
  C10. \<open>getDataExplanation\<close> always returns a text: the original response unchanged when
  the follow-up call raises, and the original response, two newlines and the explanation
  when the call yields one.
\<close>

theorem getDataExplanation_keeps_original:
  "(\<forall>err. create (explanationRequest queryData nlQuery) = Inl err \<longrightarrow>
       fst (getDataExplanation create originalResponse queryData nlQuery) = originalResponse)
   \<and> (\<forall>explanation rest.
         create (explanationRequest queryData nlQuery) = Inr (Text explanation # rest) \<longrightarrow>
         fst (getDataExplanation create originalResponse queryData nlQuery)
           = originalResponse @ [CHR 0x0A, CHR 0x0A] @ explanation)"
  by (simp add: getDataExplanation_def Let_def)

theorem getDataExplanation_keeps_original_witness:
  "fst (getDataExplanation
          (\<lambda>r. Inl (OtherError ''overloaded'') :: thrown + unit content list)
          ''Here are the sales.'' [[(''total'', JNum (42::nat))]] ''total sales'')
     = ''Here are the sales.''
   \<and> fst (getDataExplanation
          (\<lambda>r. Inr [Text ''Total sales are 42.''] :: thrown + unit content list)
          ''Here are the sales.'' [[(''total'', JNum (42::nat))]] ''total sales'')
     = ''Here are the sales.'' @ [CHR 0x0A, CHR 0x0A] @ ''Total sales are 42.''"
  using getDataExplanation_keeps_original
      [of "\<lambda>r. Inl (OtherError ''overloaded'') :: thrown + unit content list"
          "[[(''total'', JNum (42::nat))]]" "''total sales''" "''Here are the sales.''"]
    getDataExplanation_keeps_original
      [of "\<lambda>r. Inr [Text ''Total sales are 42.''] :: thrown + unit content list"
          "[[(''total'', JNum (42::nat))]]" "''total sales''" "''Here are the sales.''"]
  by simp

section \<open>The grounding check\<close>

text \<open>
  C4, as the specification states it, fails on an empty response text: no value of the
  rows occurs in it, and \<open>needsDataExplanation\<close> still answers \<open>false\<close> (its first line
  returns \<open>false\<close> when there is no text to analyse).
\<close>

theorem needsDataExplanation_empty_text_counterexample:
  "[[(''total'', JNum (42::nat))]] \<noteq> []
   \<and> \<not> referencesDataValue digitsOf [] [[(''total'', JNum (42::nat))]]
   \<and> \<not> needsDataExplanation digitsOf [] [[(''total'', JNum (42::nat))]]"
proof -
  have "digitsOf 42 \<noteq> []" by code_simp
  then show ?thesis
    by (simp add: referencesDataValue_def needsDataExplanation_def includesStr_def)
qed

text \<open>
  C4, amended. For a non-empty row list, \<open>needsDataExplanation\<close> returns \<open>true\<close> exactly
  when the response text is not empty and no numeric value of the rows (a number, or a
  string from which \<open>parseFloat\<close> reads a number), in its string form, occurs in the text.
  When it returns \<open>true\<close>, the orchestrator makes exactly one explanation call, whose data
  sample is the first 5 rows at most, and when that call yields an explanation the new
  text is the original text, two newlines and the explanation.
\<close>

theorem needsDataExplanation_grounding:
  assumes "queryData \<noteq> []"
  shows "(needsDataExplanation numStr responseText queryData \<longleftrightarrow>
            responseText \<noteq> [] \<and> \<not> referencesDataValue numStr responseText queryData)
       \<and> (needsDataExplanation numStr responseText queryData \<longrightarrow>
            snd (groundingStep numStr create (Some responseText) queryData nlQuery)
              = [explanationRequest queryData nlQuery]
            \<and> dataSample (explanationRequest queryData nlQuery) = take 5 queryData
            \<and> (\<forall>explanation rest.
                  create (explanationRequest queryData nlQuery) = Inr (Text explanation # rest) \<longrightarrow>
                  fst (groundingStep numStr create (Some responseText) queryData nlQuery)
                    = Some (responseText @ [CHR 0x0A, CHR 0x0A] @ explanation)))"
proof -
  have iff: "needsDataExplanation numStr responseText queryData \<longleftrightarrow>
               responseText \<noteq> [] \<and> \<not> referencesDataValue numStr responseText queryData"
    using assms
    by (auto simp: needsDataExplanation_def referencesDataValue_def list_ex_iff)
  have sample: "dataSample (explanationRequest queryData nlQuery) = take 5 queryData"
    by (simp add: explanationRequest_def)
  have step: "snd (groundingStep numStr create (Some responseText) queryData nlQuery)
                = [explanationRequest queryData nlQuery]"
    if "needsDataExplanation numStr responseText queryData"
    using that by (simp add: groundingStep_def getDataExplanation_def Let_def)
  have appended: "fst (groundingStep numStr create (Some responseText) queryData nlQuery)
                = Some (responseText @ [CHR 0x0A, CHR 0x0A] @ explanation)"
    if "needsDataExplanation numStr responseText queryData"
      and "create (explanationRequest queryData nlQuery) = Inr (Text explanation # rest)"
    for explanation rest
    using that by (simp add: groundingStep_def getDataExplanation_def Let_def)
  from iff sample step appended show ?thesis by blast
qed

theorem needsDataExplanation_grounding_witness:
  "[[(''total'', JNum (42::nat))]] \<noteq> []
   \<and> needsDataExplanation digitsOf ''Here are the sales.'' [[(''total'', JNum (42::nat))]]
   \<and> snd (groundingStep digitsOf
             (\<lambda>r. Inr [Text ''Total sales are 42.''] :: thrown + unit content list)
             (Some ''Here are the sales.'') [[(''total'', JNum (42::nat))]] ''total sales'')
       = [\<lparr>asked = ''total sales'', dataSample = [[(''total'', JNum 42)]], moreRows = None\<rparr>]
   \<and> fst (groundingStep digitsOf
             (\<lambda>r. Inr [Text ''Total sales are 42.''] :: thrown + unit content list)
             (Some ''Here are the sales.'') [[(''total'', JNum (42::nat))]] ''total sales'')
       = Some (''Here are the sales.'' @ [CHR 0x0A, CHR 0x0A] @ ''Total sales are 42.'')
   \<and> isNumericValue (JStr [CHR 0xA0, CHR ''5''] :: nat jsval)
   \<and> \<not> needsDataExplanation digitsOf [CHR 0xA0, CHR ''5'']
         [[(''x'', JStr [CHR 0xA0, CHR ''5''])]]"
proof -
  let ?rows = "[[(''total'', JNum (42::nat))]]"
  let ?create = "\<lambda>r. Inr [Text ''Total sales are 42.''] :: thrown + unit content list"
  have ne: "?rows \<noteq> []" by simp
  have d: "digitsOf 42 = ''42''" by code_simp
  have "\<not> includesStr ''Here are the sales.'' ''42''" by code_simp
  then have nr: "\<not> referencesDataValue digitsOf ''Here are the sales.'' ?rows"
    by (simp add: referencesDataValue_def d)
  have r: "explanationRequest ?rows ''total sales''
             = \<lparr>asked = ''total sales'', dataSample = ?rows, moreRows = None\<rparr>"
    by (simp add: explanationRequest_def)
  note t = needsDataExplanation_grounding
             [OF ne, of digitsOf "''Here are the sales.''" ?create "''total sales''"]
  from t nr have n: "needsDataExplanation digitsOf ''Here are the sales.'' ?rows"
    by simp
  with t have "snd (groundingStep digitsOf ?create (Some ''Here are the sales.'') ?rows
                  ''total sales'') = [explanationRequest ?rows ''total sales'']"
    and "fst (groundingStep digitsOf ?create (Some ''Here are the sales.'') ?rows
                  ''total sales'')
           = Some (''Here are the sales.'' @ [CHR 0x0A, CHR 0x0A] @ ''Total sales are 42.'')"
    by blast+
  moreover have k: "isNumericValue (JStr [CHR 0xA0, CHR ''5''] :: nat jsval)"
    by code_simp
  moreover have "\<not> needsDataExplanation digitsOf [CHR 0xA0, CHR ''5'']
                    [[(''x'', JStr [CHR 0xA0, CHR ''5''])]]"
  proof -
    have "includesStr [CHR 0xA0, CHR ''5''] [CHR 0xA0, CHR ''5'']"
      by (simp add: includesStr_def)
    with k have "referencesDataValue digitsOf [CHR 0xA0, CHR ''5'']
                   [[(''x'', JStr [CHR 0xA0, CHR ''5''])]]"
      by (simp add: referencesDataValue_def)
    with needsDataExplanation_grounding
           [of "[[(''x'', JStr [CHR 0xA0, CHR ''5''])]]" digitsOf "[CHR 0xA0, CHR ''5'']"
              ?create "''five''"]
    show ?thesis by simp
  qed
  ultimately show ?thesis using n ne unfolding r by blast
qed

section \<open>The explicit count of a ranking query\<close>

lemma firstSome_SomeD: "firstSome f xs = Some y \<Longrightarrow> \<exists>x \<in> set xs. f x = Some y"
  by (induction xs) (auto split: option.splits)

lemma countMatchFrom_keyword:
  "countMatchFrom prev s = Some n \<Longrightarrow> \<exists>keyword \<in> set rankingWords. sublist keyword (toLowerCase s)"
proof (induction s arbitrary: prev)
  case Nil
  then show ?case by simp
next
  case (Cons c cs)
  show ?case
  proof (cases "countMatchAt prev (c # cs)")
    case None
    with Cons.prems have "countMatchFrom (Some c) cs = Some n" by simp
    from Cons.IH [OF this] show ?thesis
      by (auto simp: toLowerCase_def sublist_Cons_right)
  next
    case (Some m)
    then obtain keyword where "keyword \<in> set rankingWords"
      and "countAfterKeyword keyword (c # cs) = Some m"
      by (auto simp: countMatchAt_def split: if_splits dest: firstSome_SomeD)
    then have "prefix keyword (toLowerCase (c # cs))"
      by (auto simp: countAfterKeyword_def split: if_splits)
    with \<open>keyword \<in> set rankingWords\<close> show ?thesis
      by (auto intro: prefix_imp_sublist)
  qed
qed

lemma comparisonCount_keyword:
  assumes "comparisonCount (trim (toLowerCase q)) = Some n"
  shows "list_ex (\<lambda>keyword. includesStr (trim (toLowerCase q)) keyword) comparisonKeywords"
proof -
  from assms obtain keyword where k: "keyword \<in> set rankingWords"
    and "sublist keyword (toLowerCase (trim (toLowerCase q)))"
    unfolding comparisonCount_def by (blast dest: countMatchFrom_keyword)
  then have "includesStr (trim (toLowerCase q)) keyword"
    by (simp add: toLowerCase_trim includesStr_def)
  moreover from k have "keyword \<in> set comparisonKeywords"
    by (auto simp: rankingWords_def comparisonKeywords_def)
  ultimately show ?thesis
    unfolding list_ex_iff by blast
qed

text \<open>
  C1, as the specification states it (the count pattern without word boundaries), fails:
  in "top 5th" the pattern of the specification reads the count 5, which is greater than
  3, but the pattern of the code asks for a word boundary after the digits and finds no
  count; with 2 rows the answer is \<open>false\<close>.
\<close>

theorem shouldCreateVisualization_count_counterexample:
  "\<not> directRequest (trim (toLowerCase ''top 5th''))
   \<and> \<not> list_ex (includesStr (trim (toLowerCase ''top 5th''))) vizKeywords
   \<and> \<not> metricByCategory (trim (toLowerCase ''top 5th''))
   \<and> list_ex (includesStr (trim (toLowerCase ''top 5th''))) comparisonKeywords
   \<and> specCount (trim (toLowerCase ''top 5th'')) = Some 5
   \<and> shouldCreateVisualization False digitsOf
        [[(''product'', JStr ''A''), (''sales'', JNum (10::nat))],
         [(''product'', JStr ''B''), (''sales'', JNum 7)]] ''top 5th'' = False"
  by code_simp

text \<open>
  C1, amended. When the LLM made no chart tool call, the query (lower-cased and trimmed)
  neither starts with "show" or "display" nor contains "show me", "visual" or one of
  "compare", "trend", "distribution", "chart", "graph", and the "[metric] by [category]"
  rule does not fire with more than one row: if the leftmost match of
  \<open>\b(top|bottom|highest|lowest|most|least)\s+(\d+)\b\<close> in the query (word boundaries on
  both sides) reads the count \<open>n\<close>, then \<open>shouldCreateVisualization\<close> returns \<open>true\<close> when
  \<open>n > 3\<close> and \<open>false\<close> when \<open>n \<le> 3\<close>, whatever the number of rows. For 2 rows and
  "top 2 countries by sales" it returns \<open>false\<close>. (The white space of \<open>\s+\<close> and of
  \<open>trim\<close> includes the no-break space: in "top", U+00A0, "7 top 2" the leftmost match
  reads 7.)
\<close>

theorem shouldCreateVisualization_explicit_count:
  assumes "\<not> directRequest (trim (toLowerCase q))"
    and "\<not> list_ex (\<lambda>keyword. includesStr (trim (toLowerCase q)) keyword) vizKeywords"
    and "\<not> (metricByCategory (trim (toLowerCase q)) \<and> length rows > 1)"
    and "comparisonCount (trim (toLowerCase q)) = Some n"
  shows "shouldCreateVisualization False numStr rows q = (3 < n)"
  using assms comparisonCount_keyword [OF assms(4)]
  by (auto simp: shouldCreateVisualization_def Let_def)

theorem shouldCreateVisualization_explicit_count_witness:
  "comparisonCount (trim (toLowerCase ''top 2 countries by sales'')) = Some 2
   \<and> shouldCreateVisualization False digitsOf
        [[(''country'', JStr ''A''), (''sales'', JNum (10::nat))],
         [(''country'', JStr ''B''), (''sales'', JNum 7)]] ''top 2 countries by sales'' = False
   \<and> comparisonCount (trim (toLowerCase ''Top 10 stores'')) = Some 10
   \<and> shouldCreateVisualization False digitsOf
        [[(''store'', JStr ''A''), (''sales'', JNum (10::nat))]] ''Top 10 stores'' = True
   \<and> comparisonCount (trim (toLowerCase (''top'' @ [CHR 0xA0] @ ''7 top 2''))) = Some 7
   \<and> shouldCreateVisualization False digitsOf
        [[(''store'', JStr ''A''), (''sales'', JNum (10::nat))]]
        (''top'' @ [CHR 0xA0] @ ''7 top 2'') = True"
proof -
  let ?q = "''top 2 countries by sales''"
  let ?rows = "[[(''country'', JStr ''A''), (''sales'', JNum (10::nat))],
                [(''country'', JStr ''B''), (''sales'', JNum 7)]]"
  have a: "\<not> directRequest (trim (toLowerCase ?q))" by code_simp
  have b: "\<not> list_ex (\<lambda>keyword. includesStr (trim (toLowerCase ?q)) keyword) vizKeywords"
    by code_simp
  have c: "\<not> (metricByCategory (trim (toLowerCase ?q)) \<and> length ?rows > 1)" by code_simp
  have d: "comparisonCount (trim (toLowerCase ?q)) = Some 2" by code_simp
  let ?p = "''Top 10 stores''"
  let ?one = "[[(''store'', JStr ''A''), (''sales'', JNum (10::nat))]]"
  have a': "\<not> directRequest (trim (toLowerCase ?p))" by code_simp
  have b': "\<not> list_ex (\<lambda>keyword. includesStr (trim (toLowerCase ?p)) keyword) vizKeywords"
    by code_simp
  have c': "\<not> (metricByCategory (trim (toLowerCase ?p)) \<and> length ?one > 1)" by code_simp
  have d': "comparisonCount (trim (toLowerCase ?p)) = Some 10" by code_simp
  let ?s = "''top'' @ [CHR 0xA0] @ ''7 top 2''"
  have a'': "\<not> directRequest (trim (toLowerCase ?s))" by code_simp
  have b'': "\<not> list_ex (\<lambda>keyword. includesStr (trim (toLowerCase ?s)) keyword) vizKeywords"
    by code_simp
  have c'': "\<not> (metricByCategory (trim (toLowerCase ?s)) \<and> length ?one > 1)" by code_simp
  have d'': "comparisonCount (trim (toLowerCase ?s)) = Some 7" by code_simp
  from shouldCreateVisualization_explicit_count [OF a b c d, of digitsOf]
    shouldCreateVisualization_explicit_count [OF a' b' c' d', of digitsOf]
    shouldCreateVisualization_explicit_count [OF a'' b'' c'' d'', of digitsOf] d d' d''
  show ?thesis by simp
qed

section \<open>The chart selected for a result set\<close>

lemma those_map_Some: "those (map Some rows) = Some rows"
  by (induction rows) auto

lemma overRows_objects: "overRows shape (map Some rows) = Inr (shape rows)"
  by (simp add: overRows_def those_map_Some)

lemma overRows_InrD: "overRows shape results = Inr c \<Longrightarrow> \<exists>rows. c = shape rows"
  by (auto simp: overRows_def split: option.splits)

lemma shapeChart_chartType:
  "shapeChart numStr ql results row0 t x ns cols = Inr c \<Longrightarrow> chart_chartType c = Some t"
  by (auto simp: shapeChart_def Let_def pieShape_def multibarShape_def singleMetricShape_def
      defaultChart_def split: if_splits dest!: overRows_InrD)

lemma shapeChart_objects:
  "\<exists>c. shapeChart numStr ql (map Some rows) row0 t x ns cols = Inr c"
  by (simp add: shapeChart_def Let_def overRows_objects)

lemma formatTimePeriods_chartType [simp]:
  "chart_chartType (formatTimePeriods f b x c) = chart_chartType c"
  by (simp add: formatTimePeriods_def split: option.splits)

lemma visualizationBody_objects:
  assumes "rows = row0 # rest"
  shows "\<exists>c. visualizationBody numStr f (map Some rows) q = Inr c
            \<and> chart_chartType c =
                Some (selectChartType (toLowerCase q)
                  (length (filter isTimeColumn (map fst row0)) > 0)
                  (categoricalColumnsOf row0 (map fst row0))
                  (numericColumnsOf row0 (map fst row0)) (length rows))"
proof -
  let ?t = "selectChartType (toLowerCase q) (length (filter isTimeColumn (map fst row0)) > 0)
              (categoricalColumnsOf row0 (map fst row0))
              (numericColumnsOf row0 (map fst row0)) (length rows)"
  let ?x = "selectXAxisKey (filter isTimeColumn (map fst row0))
              (categoricalColumnsOf row0 (map fst row0)) (map fst row0)"
  obtain c where c: "shapeChart numStr (toLowerCase q) (map Some rows) row0 ?t ?x
                       (numericColumnsOf row0 (map fst row0)) (map fst row0) = Inr c"
    using shapeChart_objects by blast
  have "chart_chartType c = Some ?t"
    using c by (rule shapeChart_chartType)
  moreover have "visualizationBody numStr f (map Some rows) q
        = Inr (formatTimePeriods f (length (filter isTimeColumn (map fst row0)) > 0) ?x c)"
    unfolding visualizationBody_def Let_def
    using c by (simp add: assms del: length_greater_0_conv)
  ultimately show ?thesis by simp
qed

text \<open>
  C2, as the specification states it, fails: two tests come before the distribution
  vocabulary in the chain that selects the chart type. With a category column and two
  numeric columns the chart is a multibar chart, whatever the query says.
\<close>

theorem prepareDataForVisualization_pie_counterexample:
  "[[(''region'', JStr ''North''), (''sales'', JNum (10::nat)), (''profit'', JNum 3)]] \<noteq> []
   \<and> includesStr ''distribution of sales by region'' ''distribution''
   \<and> map_option chart_chartType
        (prepareDataForVisualization digitsOf id
           [Some [(''region'', JStr ''North''), (''sales'', JNum (10::nat)), (''profit'', JNum 3)]]
           ''distribution of sales by region'') = Some (Some ''multibar'')"
  by code_simp

text \<open>
  C2, amended. For a non-empty result set and a query that contains (in any case of the
  letters) one of "distribution", "breakdown", "proportion", "percentage", "share", "pie",
  \<open>prepareDataForVisualization\<close> selects the chart type \<open>pie\<close>, provided that neither of
  the two earlier tests holds: a time column together with trend vocabulary in the query
  (which gives \<open>line\<close>), or at least one categorical column together with more than one
  numeric column (which gives \<open>multibar\<close>).
\<close>

theorem prepareDataForVisualization_pie:
  assumes "rows \<noteq> []"
    and "distributionVocabulary (toLowerCase q)"
    and "\<not> (filter isTimeColumn (map fst (hd rows)) \<noteq> [] \<and> trendVocabulary (toLowerCase q))"
    and "\<not> (categoricalColumnsOf (hd rows) (map fst (hd rows)) \<noteq> []
            \<and> length (numericColumnsOf (hd rows) (map fst (hd rows))) > 1)"
  shows "\<exists>c. prepareDataForVisualization numStr f (map Some rows) q = Some c
             \<and> chart_chartType c = Some ''pie''"
proof -
  from assms(1) obtain row0 rest where rows: "rows = row0 # rest"
    by (cases rows) auto
  then have hd: "hd rows = row0" by simp
  have t: "selectChartType (toLowerCase q) (length (filter isTimeColumn (map fst row0)) > 0)
             (categoricalColumnsOf row0 (map fst row0)) (numericColumnsOf row0 (map fst row0))
             (length rows) = ''pie''"
    using assms(2-4) unfolding hd selectChartType_def by (auto simp del: filter_map length_filter_map)
  from visualizationBody_objects [OF rows, of numStr f q] t
  show ?thesis
    using assms(1) by (auto simp: prepareDataForVisualization_def)
qed

theorem prepareDataForVisualization_pie_witness:
  "distributionVocabulary (toLowerCase ''Distribution of sales by region'')
   \<and> map_option chart_chartType
        (prepareDataForVisualization digitsOf id
           [Some [(''region'', JStr ''North''), (''sales'', JNum (10::nat))],
            Some [(''region'', JStr ''South''), (''sales'', JNum 7)]]
           ''Distribution of sales by region'') = Some (Some ''pie'')"
proof -
  let ?rows = "[[(''region'', JStr ''North''), (''sales'', JNum (10::nat))],
                [(''region'', JStr ''South''), (''sales'', JNum 7)]]"
  let ?q = "''Distribution of sales by region''"
  have a: "?rows \<noteq> []" by simp
  have b: "distributionVocabulary (toLowerCase ?q)" by code_simp
  have c: "\<not> (filter isTimeColumn (map fst (hd ?rows)) \<noteq> [] \<and> trendVocabulary (toLowerCase ?q))"
    by code_simp
  have d: "\<not> (categoricalColumnsOf (hd ?rows) (map fst (hd ?rows)) \<noteq> []
              \<and> length (numericColumnsOf (hd ?rows) (map fst (hd ?rows))) > 1)"
    by code_simp
  from prepareDataForVisualization_pie [OF a b c d, of digitsOf id] b
  show ?thesis by auto
qed

text \<open>
  C6, as the specification states it, fails: for a row with no numeric column the function
  returns the chart declared at the start of its body (type \<open>bar\<close>, no data), not \<open>null\<close>.
\<close>

theorem prepareDataForVisualization_null_counterexample:
  "numericColumnsOf [(''name'', JStr ''A'')] (map fst [(''name'', JStr ''A'')]) = []
   \<and> selectValueColumn (toLowerCase ''list names'') [] = []
   \<and> prepareDataForVisualization digitsOf id [Some [(''name'', JStr ''A'' :: nat jsval)]]
        ''list names''
       = Some \<lparr>chart_chartType = Some ''bar'', chart_data = Some [],
               chart_config = Some
                 \<lparr>cfg_xAxisKey = Some [], cfg_title = Some ''Sales Data Analysis'',
                  cfg_description = Some ''Analysis based on your query'',
                  cfg_totalLabel = None, cfg_margin = None\<rparr>,
               chart_chartConfig = Some []\<rparr>"
  by code_simp

text \<open>
  C6, amended. \<open>prepareDataForVisualization\<close> never throws: its value is \<open>null\<close> when the
  rows are empty, and otherwise \<open>null\<close> exactly when its body raises (a row that is
  \<open>null\<close>), the \<open>catch\<close> clause returning \<open>null\<close>. For rows that are objects it returns a
  chart object; when no value column can be determined for a pie, bar or line chart, that
  object is the chart declared at the start of the body, with the type selected, no data
  and no series.
\<close>

theorem prepareDataForVisualization_never_throws:
  fixes row0 :: "'n row" and rest :: "'n row list" and results :: "'n row option list"
    and q :: string
  defines "columns \<equiv> map fst row0"
    and "numericColumns \<equiv> numericColumnsOf row0 (map fst row0)"
    and "chartType \<equiv> selectChartType (toLowerCase q)
            (length (filter isTimeColumn (map fst row0)) > 0)
            (categoricalColumnsOf row0 (map fst row0)) (numericColumnsOf row0 (map fst row0))
            (length (row0 # rest))"
  shows "prepareDataForVisualization numStr f [] q = None
       \<and> (prepareDataForVisualization numStr f results q = None \<longleftrightarrow>
            results = [] \<or> (\<exists>err. visualizationBody numStr f results q = Inl err))
       \<and> (\<exists>c. prepareDataForVisualization numStr f (map Some (row0 # rest)) q = Some c)
       \<and> ((chartType = ''pie'' \<and> \<not> truthy (pieValueColumn row0 numericColumns columns))
            \<or> (chartType \<noteq> ''pie'' \<and> chartType \<noteq> ''multibar''
                \<and> selectValueColumn (toLowerCase q) numericColumns = []) \<longrightarrow>
            prepareDataForVisualization numStr f (map Some (row0 # rest)) q
              = Some (defaultChart chartType))"
proof -
  let ?x = "selectXAxisKey (filter isTimeColumn (map fst row0))
              (categoricalColumnsOf row0 (map fst row0)) (map fst row0)"
  have a: "prepareDataForVisualization numStr f [] q = None"
    by (simp add: prepareDataForVisualization_def)
  have b: "prepareDataForVisualization numStr f results q = None \<longleftrightarrow>
             results = [] \<or> (\<exists>err. visualizationBody numStr f results q = Inl err)"
    by (auto simp: prepareDataForVisualization_def split: sum.splits)
  have c: "\<exists>c. prepareDataForVisualization numStr f (map Some (row0 # rest)) q = Some c"
    using visualizationBody_objects [OF refl, of numStr f row0 rest q]
    by (auto simp: prepareDataForVisualization_def)
  have d: "prepareDataForVisualization numStr f (map Some (row0 # rest)) q
             = Some (defaultChart chartType)"
    if "(chartType = ''pie'' \<and> \<not> truthy (pieValueColumn row0 numericColumns columns))
        \<or> (chartType \<noteq> ''pie'' \<and> chartType \<noteq> ''multibar''
            \<and> selectValueColumn (toLowerCase q) numericColumns = [])"
  proof -
    have "shapeChart numStr (toLowerCase q) (map Some (row0 # rest)) row0 chartType ?x
            numericColumns columns = Inr (defaultChart chartType)"
      using that by (auto simp: shapeChart_def Let_def)
    moreover have "formatTimePeriods f b ?x (defaultChart chartType :: 'n chart)
                     = defaultChart chartType" for b
      by (simp add: formatTimePeriods_def defaultChart_def)
    ultimately have "visualizationBody numStr f (map Some (row0 # rest)) q
                       = Inr (defaultChart chartType)"
      unfolding visualizationBody_def Let_def columns_def numericColumns_def chartType_def
      by (simp del: length_greater_0_conv)
    then show ?thesis
      by (simp add: prepareDataForVisualization_def)
  qed
  from a b c d show ?thesis by blast
qed

theorem prepareDataForVisualization_never_throws_witness:
  "prepareDataForVisualization digitsOf id
      [Some [(''sales'', JNum (10::nat))], None] ''total sales'' = None
   \<and> visualizationBody digitsOf id
        [Some [(''sales'', JNum (10::nat))], None] ''total sales'' = Inl TypeError
   \<and> prepareDataForVisualization digitsOf id [Some [(''name'', JStr ''A'' :: nat jsval)]]
        ''list names'' = Some (defaultChart ''bar'')"
proof -
  let ?bad = "[Some [(''sales'', JNum (10::nat))], None]"
  have e: "visualizationBody digitsOf id ?bad ''total sales'' = Inl TypeError"
    by code_simp
  have t: "selectChartType (toLowerCase ''list names'')
             (length (filter isTimeColumn (map fst [(''name'', JStr ''A'' :: nat jsval)])) > 0)
             (categoricalColumnsOf [(''name'', JStr ''A'' :: nat jsval)]
                (map fst [(''name'', JStr ''A'' :: nat jsval)]))
             (numericColumnsOf [(''name'', JStr ''A'' :: nat jsval)]
                (map fst [(''name'', JStr ''A'' :: nat jsval)]))
             (length ([(''name'', JStr ''A'' :: nat jsval)] # [])) = ''bar''"
    by code_simp
  have v: "selectValueColumn (toLowerCase ''list names'')
             (numericColumnsOf [(''name'', JStr ''A'' :: nat jsval)]
                (map fst [(''name'', JStr ''A'' :: nat jsval)])) = []"
    by code_simp
  note w = prepareDataForVisualization_never_throws
             [where numStr = digitsOf and f = id and q = "''total sales''" and results = ?bad
               and ?row0.0 = "[(''sales'', JNum (10::nat))]" and rest = "[]"]
  note u = prepareDataForVisualization_never_throws
             [where numStr = digitsOf and f = id and q = "''list names''" and results = "[]"
               and ?row0.0 = "[(''name'', JStr ''A'' :: nat jsval)]" and rest = "[]",
              unfolded t v]
  from w e have "prepareDataForVisualization digitsOf id ?bad ''total sales'' = None"
    by blast
  moreover from u
  have "prepareDataForVisualization digitsOf id [Some [(''name'', JStr ''A'' :: nat jsval)]]
          ''list names'' = Some (defaultChart ''bar'')"
    by simp
  ultimately show ?thesis using e by blast
qed

section \<open>The analyzer sums a named column once\<close>

lemma schemas_distinct: "distinct (map col_dbName (tbl_columns (schemas t)))"
  by (cases t) (simp_all add: salesDataSchema_def productDesignSchema_def vehicleMasterSchema_def)

lemma filter_same_key:
  "distinct (map g xs) \<Longrightarrow> x \<in> set xs \<Longrightarrow> filter (\<lambda>y. g y = g x) xs = [x]"
proof (induction xs)
  case Nil
  then show ?case by simp
next
  case (Cons a xs)
  show ?case
  proof (cases "a = x")
    case True
    with Cons.prems have "g x \<notin> g ` set xs" by simp
    then have "\<forall>y \<in> set xs. g y \<noteq> g x" by (metis imageI)
    then have "filter (\<lambda>y. g y = g x) xs = []" by (auto simp: filter_empty_conv)
    with True show ?thesis by simp
  next
    case False
    with Cons.prems have "x \<in> set xs" and "g a \<noteq> g x" by auto
    with Cons show ?thesis by simp
  qed
qed

lemma sumColumns_once:
  assumes "includesStr ql ''total''" and "col \<in> set (tbl_columns (schemas t))"
    and "isNumericColumn col" and "mentions ql col"
  shows "length (filter (sumOn t col) (sumColumns t ql (countColumns t ql))) = 1"
proof -
  let ?Q = "\<lambda>c. isNumericColumn c \<and> mentions ql c"
  let ?sums = "map (aggregateColumn t ''SUM'' ''total_'') (filter ?Q (tbl_columns (schemas t)))"
  have "filter (sumOn t col) ?sums
          = map (aggregateColumn t ''SUM'' ''total_'')
              (filter (\<lambda>y. col_dbName y = col_dbName col) (filter ?Q (tbl_columns (schemas t))))"
    by (simp add: filter_map comp_def sumOn_def aggregateColumn_def)
  also have "filter (\<lambda>y. col_dbName y = col_dbName col) (filter ?Q (tbl_columns (schemas t)))
               = [col]"
    using assms schemas_distinct [of t]
    by (intro filter_same_key) (auto simp: distinct_map_filter)
  finally have one: "length (filter (sumOn t col) ?sums) = 1" by simp
  then have ex: "list_ex (\<lambda>c. sel_aggregate c = Some ''SUM'') (countColumns t ql @ ?sums)"
    by (auto simp: list_ex_iff sumOn_def filter_empty_conv
        dest!: arg_cong [where f = "\<lambda>n. n = 0"] simp del: length_0_conv)
  have cnt: "filter (sumOn t col) (countColumns t ql) = []"
    by (simp add: countColumns_def sumOn_def)
  have "sumColumns t ql (countColumns t ql) = countColumns t ql @ ?sums"
    using assms(1) ex by (simp only: sumColumns_def Let_def simp_thms if_True if_False)
  with one cnt show ?thesis by simp
qed

lemma avgColumns_keeps: "filter (sumOn t col) (avgColumns t ql cs) = filter (sumOn t col) cs"
proof -
  have "filter (sumOn t col) (map (aggregateColumn t ''AVG'' ''avg_'') xs) = []" for xs
    by (simp add: filter_empty_conv sumOn_def aggregateColumn_def)
  then show ?thesis
    by (simp add: avgColumns_def Let_def sumOn_def aggregateColumn_def split: option.splits)
qed

lemma mentionedColumns_keeps:
  "filter (sumOn t col) (mentionedColumns t ql cs) = filter (sumOn t col) cs"
proof -
  have "filter (sumOn t col)
          (foldl (\<lambda>acc col.
              if isTechnical col then acc
              else if mentions ql col
                      \<and> \<not> list_ex (\<lambda>c. sel_columnName c = col_dbName col \<and> sel_aggregate c \<noteq> None) acc
              then acc @ [plainColumn (tableKey t) (col_name col) col]
              else acc) cs xs) = filter (sumOn t col) cs" for xs
    by (induction xs arbitrary: cs) (simp_all add: sumOn_def plainColumn_def)
  then show ?thesis by (simp add: mentionedColumns_def)
qed

lemma joinColumns_keeps: "filter (sumOn t col) (joinColumns j ql cs) = filter (sumOn t col) cs"
  by (simp add: joinColumns_def sumOn_def plainColumn_def filter_empty_conv split: option.splits)

lemma defaultColumns_keeps: "cs \<noteq> [] \<Longrightarrow> defaultColumns t cs = cs"
  by (simp add: defaultColumns_def)

lemma determineColumns_once:
  assumes "includesStr (toLowerCase q) ''total''" and "col \<in> set (tbl_columns (schemas t))"
    and "isNumericColumn col" and "mentions (toLowerCase q) col"
  shows "length (filter (sumOn t col) (determineColumns (toLowerCase q) t j)) = 1"
proof -
  let ?ql = "toLowerCase q"
  let ?cs = "joinColumns j ?ql (mentionedColumns t ?ql (avgColumns t ?ql
               (sumColumns t ?ql (countColumns t ?ql))))"
  have one: "length (filter (sumOn t col) ?cs) = 1"
    using sumColumns_once [OF assms]
    by (simp add: joinColumns_keeps mentionedColumns_keeps avgColumns_keeps)
  then have "?cs \<noteq> []" by auto
  then show ?thesis
    using one by (simp add: determineColumns_def Let_def toLowerCase_idem defaultColumns_keeps)
qed

text \<open>
  C3. When the question contains "total" and the name of a numeric column of the table
  the analyzer selects for it (both read without regard to the case of the letters, as
  the analyzer lower-cases the question; a question that contains them literally
  contains them so), the selected columns of the intent hold exactly one \<open>SUM\<close> aggregate
  on that column.
\<close>

theorem analyzer_total_sum_exactly_once:
  assumes "includesStr (toLowerCase q) ''total''"
    and "col \<in> set (tbl_columns (schemas (mainTable (queryIntent q))))"
    and "isNumericColumn col"
    and "includesStr (toLowerCase q) (toLowerCase (col_name col))"
  shows "length (filter (\<lambda>c. sel_aggregate c = Some ''SUM''
                            \<and> sel_tableName c = tableKey (mainTable (queryIntent q))
                            \<and> sel_columnName c = col_dbName col)
                   (selectedColumns (queryIntent q))) = 1"
proof -
  let ?t = "selectMainTable (toLowerCase q)"
  let ?j = "selectJoinTable ?t (toLowerCase q)"
  have t: "mainTable (queryIntent q) = ?t"
    by (simp add: queryIntent_def Let_def)
  have m: "mentions (toLowerCase q) col"
    using assms(4) by (simp add: mentions_def)
  have one: "length (filter (sumOn ?t col) (determineColumns (toLowerCase q) ?t ?j)) = 1"
    using assms(1) assms(2) [unfolded t] assms(3) m by (rule determineColumns_once)
  then have "list_ex (\<lambda>c. sel_aggregate c \<noteq> None) (determineColumns (toLowerCase q) ?t ?j)"
    by (auto simp: list_ex_iff sumOn_def filter_empty_conv
        dest!: arg_cong [where f = "\<lambda>n. n = 0"] simp del: length_0_conv)
  then have "selectedColumns (queryIntent q) = determineColumns (toLowerCase q) ?t ?j"
    by (simp add: queryIntent_def Let_def)
  with one show ?thesis
    unfolding t sumOn_def by simp
qed

theorem analyzer_total_sum_exactly_once_witness:
  "includesStr (toLowerCase ''Total quantity by region'') ''total''
   \<and> mainTable (queryIntent ''Total quantity by region'') = sales_data
   \<and> length (filter (\<lambda>c. sel_aggregate c = Some ''SUM''
                          \<and> sel_tableName c = ''sales_data''
                          \<and> sel_columnName c = ''quantity'')
                (selectedColumns (queryIntent ''Total quantity by region''))) = 1"
proof -
  let ?q = "''Total quantity by region''"
  let ?col = "\<lparr>col_name = ''quantity'', col_dbName = ''quantity'', col_type = ''int'',
               col_description = ''Quantity of the product sold'', col_isNullable = False\<rparr>"
  have a: "includesStr (toLowerCase ?q) ''total''" by code_simp
  have t: "mainTable (queryIntent ?q) = sales_data" by code_simp
  have b: "?col \<in> set (tbl_columns (schemas (mainTable (queryIntent ?q))))"
    unfolding t by (simp add: salesDataSchema_def)
  have c: "isNumericColumn ?col" by (simp add: isNumericColumn_def)
  have d: "includesStr (toLowerCase ?q) (toLowerCase (col_name ?col))" by code_simp
  from analyzer_total_sum_exactly_once [OF a b c d] a t
  show ?thesis by simp
qed

section \<open>The status of the response\<close>

lemma errorResponse_raised:
  "errorResponse (raised f) =
     \<lparr>res_status = 500,
      res_body = ErrorBody (case f of RaisedError m \<Rightarrow> m
                                   | RaisedValue \<Rightarrow> ''An unknown error occurred'') None\<rparr>"
  by (cases f) (simp_all add: errorResponse_def)

lemma errorResponse_other:
  "errorResponse (OtherError m) = \<lparr>res_status = 500, res_body = ErrorBody m None\<rparr>"
  by (simp add: errorResponse_def)

lemma errorResponse_status:
  "res_status (errorResponse err :: 'p response)
     = (case err of AuthenticationError _ \<Rightarrow> 401 | _ \<Rightarrow> 500)"
  by (cases err) (simp_all add: errorResponse_def)

lemma attachFile_status: "attachFile env fd msgs ams = Inl resp \<Longrightarrow> res_status resp = 400"
  by (auto simp: attachFile_def Let_def badRequest_def
      split: option.splits if_splits json.splits)

text \<open>
  The request that reaches the conversion of the messages: the body has a \<open>messages\<close>
  array and its \<open>model\<close>, when it has one, is truthy.
\<close>

lemma prepareRequest_checked:
  assumes "req_json env = Inr requestBody"
    and "jsonMember requestBody ''messages'' = Some (JsonArray msgs)"
    and "\<forall>m. jsonMember requestBody ''model'' = Some m \<longrightarrow> truthyJson (nonZero env) m"
  shows "prepareRequest env =
           (case convertMessages env msgs of
              Inl err \<Rightarrow> Inl (errorResponse err)
            | Inr anthropicMessages \<Rightarrow>
                (case attachFile env (jsonMember requestBody ''fileData'') msgs
                        anthropicMessages of
                   Inl resp \<Rightarrow> Inl resp
                 | Inr toSend \<Rightarrow>
                     Inr \<lparr>chat_model = (case jsonMember requestBody ''model'' of
                                          None \<Rightarrow> JsonString ''claude-3-haiku-20240307''
                                        | Some m \<Rightarrow> m),
                          chat_messages = toSend\<rparr>))"
proof -
  from assms(2) obtain props where b: "requestBody = JsonObject props"
    by (cases requestBody) auto
  from assms show ?thesis
    unfolding prepareRequest_def Let_def b
    by (cases "map_of (rev props) ''model''") simp_all
qed

lemma prepareRequest_null_message:
  assumes "req_json env = Inr requestBody"
    and "jsonMember requestBody ''messages'' = Some (JsonArray msgs)"
    and "\<forall>m. jsonMember requestBody ''model'' = Some m \<longrightarrow> truthyJson (nonZero env) m"
    and "JsonNull \<in> set msgs"
  shows "prepareRequest env
           = Inl \<lparr>res_status = 500, res_body = ErrorBody (readingOfNull env) None\<rparr>"
  using assms(4)
  by (simp add: prepareRequest_checked [OF assms(1-3)] convertMessages_def errorResponse_other)

text \<open>
  What \<open>prepareRequest\<close> answers by itself is a 400, but for the three failures of the
  theorem below.
\<close>

lemma prepareRequest_status:
  assumes "prepareRequest env = Inl resp"
  shows "res_status resp = 400
       \<or> res_status resp = 500
          \<and> ((\<exists>f. req_json env = Inl f) \<or> req_json env = Inr JsonNull
             \<or> (\<exists>requestBody msgs. req_json env = Inr requestBody
                   \<and> jsonMember requestBody ''messages'' = Some (JsonArray msgs)
                   \<and> (\<forall>m. jsonMember requestBody ''model'' = Some m
                          \<longrightarrow> truthyJson (nonZero env) m)
                   \<and> JsonNull \<in> set msgs))"
proof (cases "req_json env")
  case (Inl f)
  with assms show ?thesis
    by (auto simp: prepareRequest_def errorResponse_raised)
next
  case (Inr requestBody)
  show ?thesis
  proof (cases "\<exists>msgs. jsonMember requestBody ''messages'' = Some (JsonArray msgs)")
    case False
    with assms Inr show ?thesis
      by (cases requestBody)
        (auto simp: prepareRequest_def Let_def badRequest_def errorResponse_other
          split: option.splits json.splits)
  next
    case True
    then obtain msgs where m: "jsonMember requestBody ''messages'' = Some (JsonArray msgs)"
      by blast
    show ?thesis
    proof (cases "\<forall>m. jsonMember requestBody ''model'' = Some m
                     \<longrightarrow> truthyJson (nonZero env) m")
      case False
      from m obtain props where b: "requestBody = JsonObject props"
        by (cases requestBody) auto
      from False assms Inr m show ?thesis
        unfolding prepareRequest_def Let_def b
        by (auto simp: badRequest_def)
    next
      case True
      note checked = prepareRequest_checked [OF Inr m True]
      show ?thesis
      proof (cases "JsonNull \<in> set msgs")
        case True
        with assms Inr m \<open>\<forall>m. jsonMember requestBody ''model'' = Some m
                     \<longrightarrow> truthyJson (nonZero env) m\<close>
        show ?thesis
          by (auto simp: checked convertMessages_def errorResponse_other)
      next
        case False
        with assms have "res_status resp = 400"
          by (auto simp: checked convertMessages_def split: sum.splits
              dest: attachFile_status)
        then show ?thesis ..
      qed
    qed
  qed
qed

lemma prepareRequest_passes:
  assumes "prepareRequest env = Inr request"
  shows "\<not> ((\<exists>f. req_json env = Inl f) \<or> req_json env = Inr JsonNull
             \<or> (\<exists>requestBody msgs. req_json env = Inr requestBody
                   \<and> jsonMember requestBody ''messages'' = Some (JsonArray msgs)
                   \<and> (\<forall>m. jsonMember requestBody ''model'' = Some m
                          \<longrightarrow> truthyJson (nonZero env) m)
                   \<and> JsonNull \<in> set msgs))"
proof -
  have "\<not> (\<exists>f. req_json env = Inl f)" "req_json env \<noteq> Inr JsonNull"
    using assms by (auto simp: prepareRequest_def)
  moreover have False
    if "req_json env = Inr requestBody"
      and "jsonMember requestBody ''messages'' = Some (JsonArray msgs)"
      and "\<forall>m. jsonMember requestBody ''model'' = Some m \<longrightarrow> truthyJson (nonZero env) m"
      and "JsonNull \<in> set msgs" for requestBody msgs
    using assms prepareRequest_null_message [OF that] by simp
  ultimately show ?thesis by blast
qed

text \<open>
  C9, as the specification states it, fails for a request without the \<open>model\<close> field:
  the destructuring gives \<open>model\<close> its default, the test \<open>!model\<close> does not fire, and
  the request goes upstream; with a reply the status is 200. (In the example the reply
  is the request sent, and the payload is the reply.)
\<close>

theorem POST_missing_model_counterexample:
  "jsonMember (JsonObject [(''messages'', JsonArray [JsonObject
       [(''role'', JsonString ''user''), (''content'', JsonString ''total sales'')]])])
     ''model'' = (None :: nat json option)
   \<and> res_status (POST
        \<lparr>req_json = Inr (JsonObject [(''messages'', JsonArray [JsonObject
             [(''role'', JsonString ''user''), (''content'', JsonString ''total sales'')]])]),
         nonZero = (<) (0 :: nat), decodeText = Map.empty,
         destructuringNull = ''Cannot destructure a value that is null'',
         readingOfNull = ''Cannot read properties of null'',
         messages_create = Inr, processReply = Inr\<rparr>) = 200"
  by (simp add: POST_def prepareRequest_def convertMessages_def attachFile_def Let_def)

text \<open>
  C9, amended. \<open>POST\<close> returns status 400 whenever the body is not \<open>null\<close> and \<open>messages\<close>
  is missing or is not an array, and whenever \<open>messages\<close> is an array and the \<open>model\<close>
  field is present but falsy (\<open>null\<close>, the empty text, zero, \<open>false\<close>); a missing \<open>model\<close>
  field takes the default model. It returns 401 exactly when the request passes every
  check and the upstream call raises an authentication error. Every other failure that is
  not handled gives 500 with the body \<open>{error: string}\<close>, the message of the error or
  "An unknown error occurred": a body that is no JSON, a body that is \<open>null\<close> and a
  message that is \<open>null\<close> (the \<open>TypeError\<close> of the handler itself, with the message of the
  engine), an upstream call that raises another error, and the processing of the reply
  raising. The status is 500 in these five cases only.
\<close>

theorem POST_status:
  "(\<forall>f. req_json env = Inl f \<longrightarrow>
      POST env = \<lparr>res_status = 500,
                   res_body = ErrorBody (case f of RaisedError m \<Rightarrow> m
                                | RaisedValue \<Rightarrow> ''An unknown error occurred'') None\<rparr>)
   \<and> (req_json env = Inr JsonNull \<longrightarrow>
        POST env = \<lparr>res_status = 500, res_body = ErrorBody (destructuringNull env) None\<rparr>)
   \<and> (\<forall>requestBody. req_json env = Inr requestBody \<and> requestBody \<noteq> JsonNull
          \<and> (\<forall>msgs. jsonMember requestBody ''messages'' \<noteq> Some (JsonArray msgs)) \<longrightarrow>
        res_status (POST env) = 400)
   \<and> (\<forall>requestBody msgs m. req_json env = Inr requestBody
          \<and> jsonMember requestBody ''messages'' = Some (JsonArray msgs)
          \<and> jsonMember requestBody ''model'' = Some m \<and> \<not> truthyJson (nonZero env) m \<longrightarrow>
        res_status (POST env) = 400)
   \<and> (\<forall>requestBody msgs. req_json env = Inr requestBody
          \<and> jsonMember requestBody ''messages'' = Some (JsonArray msgs)
          \<and> (\<forall>m. jsonMember requestBody ''model'' = Some m \<longrightarrow> truthyJson (nonZero env) m)
          \<and> JsonNull \<in> set msgs \<longrightarrow>
        POST env = \<lparr>res_status = 500, res_body = ErrorBody (readingOfNull env) None\<rparr>)
   \<and> (res_status (POST env) = 401 \<longleftrightarrow>
        (\<exists>request msg. prepareRequest env = Inr request
           \<and> messages_create env request = Inl (AuthenticationError msg)))
   \<and> (\<forall>request err. prepareRequest env = Inr request \<and> messages_create env request = Inl err
          \<and> (\<forall>msg. err \<noteq> AuthenticationError msg) \<longrightarrow>
        POST env = \<lparr>res_status = 500,
                     res_body = ErrorBody (if isError err then message err
                                           else ''An unknown error occurred'') None\<rparr>)
   \<and> (\<forall>request reply f. prepareRequest env = Inr request
          \<and> messages_create env request = Inr reply \<and> processReply env reply = Inl f \<longrightarrow>
        POST env = \<lparr>res_status = 500,
                     res_body = ErrorBody (case f of RaisedError m \<Rightarrow> m
                                  | RaisedValue \<Rightarrow> ''An unknown error occurred'') None\<rparr>)
   \<and> (res_status (POST env) = 500 \<longleftrightarrow>
        (\<exists>f. req_json env = Inl f) \<or> req_json env = Inr JsonNull
        \<or> (\<exists>requestBody msgs. req_json env = Inr requestBody
              \<and> jsonMember requestBody ''messages'' = Some (JsonArray msgs)
              \<and> (\<forall>m. jsonMember requestBody ''model'' = Some m
                     \<longrightarrow> truthyJson (nonZero env) m)
              \<and> JsonNull \<in> set msgs)
        \<or> (\<exists>request err. prepareRequest env = Inr request
              \<and> messages_create env request = Inl err
              \<and> (\<forall>msg. err \<noteq> AuthenticationError msg))
        \<or> (\<exists>request reply f. prepareRequest env = Inr request
              \<and> messages_create env request = Inr reply \<and> processReply env reply = Inl f))"
proof -
  let ?before = "(\<exists>f. req_json env = Inl f) \<or> req_json env = Inr JsonNull
        \<or> (\<exists>requestBody msgs. req_json env = Inr requestBody
              \<and> jsonMember requestBody ''messages'' = Some (JsonArray msgs)
              \<and> (\<forall>m. jsonMember requestBody ''model'' = Some m
                     \<longrightarrow> truthyJson (nonZero env) m)
              \<and> JsonNull \<in> set msgs)"
  have a: "POST env = \<lparr>res_status = 500,
                   res_body = ErrorBody (case f of RaisedError m \<Rightarrow> m
                                | RaisedValue \<Rightarrow> ''An unknown error occurred'') None\<rparr>"
    if "req_json env = Inl f" for f
    using that by (simp add: POST_def prepareRequest_def errorResponse_raised)
  have n: "POST env = \<lparr>res_status = 500, res_body = ErrorBody (destructuringNull env) None\<rparr>"
    if "req_json env = Inr JsonNull"
    using that by (simp add: POST_def prepareRequest_def errorResponse_other)
  have b: "res_status (POST env) = 400"
    if "req_json env = Inr requestBody" "requestBody \<noteq> JsonNull"
      "\<forall>msgs. jsonMember requestBody ''messages'' \<noteq> Some (JsonArray msgs)" for requestBody
    using that
    by (cases requestBody)
      (auto simp: POST_def prepareRequest_def Let_def badRequest_def
        split: option.splits json.splits)
  have c: "res_status (POST env) = 400"
    if "req_json env = Inr requestBody"
      "jsonMember requestBody ''messages'' = Some (JsonArray msgs)"
      "jsonMember requestBody ''model'' = Some m" "\<not> truthyJson (nonZero env) m"
    for requestBody msgs m
  proof -
    from that(2) obtain props where "requestBody = JsonObject props"
      by (cases requestBody) auto
    with that show ?thesis
      by (simp add: POST_def prepareRequest_def Let_def badRequest_def)
  qed
  have r: "POST env = \<lparr>res_status = 500, res_body = ErrorBody (readingOfNull env) None\<rparr>"
    if "req_json env = Inr requestBody"
      "jsonMember requestBody ''messages'' = Some (JsonArray msgs)"
      "\<forall>m. jsonMember requestBody ''model'' = Some m \<longrightarrow> truthyJson (nonZero env) m"
      "JsonNull \<in> set msgs" for requestBody msgs
    using prepareRequest_null_message [OF that] by (simp add: POST_def)
  have d: "res_status (POST env) = 401 \<longleftrightarrow>
        (\<exists>request msg. prepareRequest env = Inr request
           \<and> messages_create env request = Inl (AuthenticationError msg))"
  proof (cases "prepareRequest env")
    case (Inl resp)
    with prepareRequest_status [OF Inl] show ?thesis
      by (auto simp: POST_def)
  next
    case (Inr request)
    then show ?thesis
      by (auto simp: POST_def errorResponse_status errorResponse_raised
          split: sum.splits thrown.splits)
  qed
  have e: "POST env = \<lparr>res_status = 500,
                     res_body = ErrorBody (if isError err then message err
                                           else ''An unknown error occurred'') None\<rparr>"
    if "prepareRequest env = Inr request" "messages_create env request = Inl err"
      "\<forall>msg. err \<noteq> AuthenticationError msg" for request err
    using that by (cases err) (simp_all add: POST_def errorResponse_def)
  have f: "POST env = \<lparr>res_status = 500,
                     res_body = ErrorBody (case f of RaisedError m \<Rightarrow> m
                                  | RaisedValue \<Rightarrow> ''An unknown error occurred'') None\<rparr>"
    if "prepareRequest env = Inr request" "messages_create env request = Inr reply"
      "processReply env reply = Inl f" for request reply f
    using that by (simp add: POST_def errorResponse_raised)
  have g: "res_status (POST env) = 500 \<longleftrightarrow>
        ?before
        \<or> (\<exists>request err. prepareRequest env = Inr request
              \<and> messages_create env request = Inl err
              \<and> (\<forall>msg. err \<noteq> AuthenticationError msg))
        \<or> (\<exists>request reply f. prepareRequest env = Inr request
              \<and> messages_create env request = Inr reply \<and> processReply env reply = Inl f)"
  proof (cases "prepareRequest env")
    case (Inl resp)
    have "res_status (POST env) = 500 \<longleftrightarrow> ?before"
    proof
      assume "res_status (POST env) = 500"
      with Inl prepareRequest_status [OF Inl] show ?before
        by (simp add: POST_def)
    next
      assume ?before
      with a n r show "res_status (POST env) = 500"
        by auto
    qed
    with Inl show ?thesis by simp
  next
    case (Inr request)
    note none = prepareRequest_passes [OF Inr]
    show ?thesis
    proof (cases "messages_create env request")
      case (Inl err)
      with Inr have "res_status (POST env) = 500 \<longleftrightarrow> (\<forall>msg. err \<noteq> AuthenticationError msg)"
        by (cases err) (simp_all add: POST_def errorResponse_def)
      with Inr Inl none show ?thesis by auto
    next
      case reply: (Inr reply)
      with Inr have "res_status (POST env) = 500 \<longleftrightarrow> (\<exists>f. processReply env reply = Inl f)"
        by (cases "processReply env reply") (simp_all add: POST_def errorResponse_raised)
      with Inr reply none show ?thesis by auto
    qed
  qed
  show ?thesis
    apply (intro conjI)
    subgoal using a by blast
    subgoal using n by blast
    subgoal using b by blast
    subgoal using c by blast
    subgoal using r by blast
    subgoal by (rule d)
    subgoal using e by blast
    subgoal using f by blast
    subgoal using g by (simp only: disj_assoc)
    done
qed

theorem POST_status_witness:
  "res_status (POST
      \<lparr>req_json = Inr (JsonObject [(''model'', JsonString ''claude'')]),
       nonZero = (\<lambda>n :: nat. n \<noteq> 0), decodeText = (\<lambda>b. None),
       destructuringNull = ''Cannot destructure a value that is null'',
       readingOfNull = ''Cannot read properties of null'',
       messages_create = (\<lambda>request. Inr ()), processReply = (\<lambda>reply. Inr ())\<rparr>) = 400
   \<and> res_status (POST
      \<lparr>req_json = Inr (JsonObject [(''messages'', JsonArray []), (''model'', JsonString [])]),
       nonZero = (\<lambda>n :: nat. n \<noteq> 0), decodeText = (\<lambda>b. None),
       destructuringNull = ''Cannot destructure a value that is null'',
       readingOfNull = ''Cannot read properties of null'',
       messages_create = (\<lambda>request. Inr ()), processReply = (\<lambda>reply. Inr ())\<rparr>) = 400
   \<and> res_status (POST
      \<lparr>req_json = Inr (JsonObject [(''messages'', JsonArray [JsonObject
           [(''role'', JsonString ''user''), (''content'', JsonString ''total sales'')]])]),
       nonZero = (\<lambda>n :: nat. n \<noteq> 0), decodeText = (\<lambda>b. None),
       destructuringNull = ''Cannot destructure a value that is null'',
       readingOfNull = ''Cannot read properties of null'',
       messages_create = (\<lambda>request. Inl (AuthenticationError ''invalid x-api-key'')),
       processReply = (\<lambda>reply :: unit. Inr ())\<rparr>) = 401
   \<and> POST
      \<lparr>req_json = Inr (JsonObject [(''messages'', JsonArray [JsonObject
           [(''role'', JsonString ''user''), (''content'', JsonString ''total sales'')]])]),
       nonZero = (\<lambda>n :: nat. n \<noteq> 0), decodeText = (\<lambda>b. None),
       destructuringNull = ''Cannot destructure a value that is null'',
       readingOfNull = ''Cannot read properties of null'',
       messages_create = (\<lambda>request. Inl (OtherError ''Overloaded'')),
       processReply = (\<lambda>reply :: unit. Inr ())\<rparr>
     = \<lparr>res_status = 500, res_body = (ErrorBody ''Overloaded'' None :: unit responseBody)\<rparr>
   \<and> POST
      \<lparr>req_json = Inl (RaisedError ''Unexpected end of JSON input''),
       nonZero = (\<lambda>n :: nat. n \<noteq> 0), decodeText = (\<lambda>b. None),
       destructuringNull = ''Cannot destructure a value that is null'',
       readingOfNull = ''Cannot read properties of null'',
       messages_create = (\<lambda>request. Inr ()), processReply = (\<lambda>reply. Inr ())\<rparr>
     = \<lparr>res_status = 500,
        res_body = (ErrorBody ''Unexpected end of JSON input'' None :: unit responseBody)\<rparr>
   \<and> POST
      \<lparr>req_json = Inr (JsonObject [(''messages'', JsonArray [JsonObject
           [(''role'', JsonString ''user''), (''content'', JsonString ''total sales'')]])]),
       nonZero = (\<lambda>n :: nat. n \<noteq> 0), decodeText = (\<lambda>b. None),
       destructuringNull = ''Cannot destructure a value that is null'',
       readingOfNull = ''Cannot read properties of null'',
       messages_create = (\<lambda>request. Inr ()),
       processReply = (\<lambda>reply. Inl (RaisedError ''input is undefined''))\<rparr>
     = \<lparr>res_status = 500,
        res_body = (ErrorBody ''input is undefined'' None :: unit responseBody)\<rparr>
   \<and> POST
      \<lparr>req_json = Inr JsonNull,
       nonZero = (\<lambda>n :: nat. n \<noteq> 0), decodeText = (\<lambda>b. None),
       destructuringNull = ''Cannot destructure a value that is null'',
       readingOfNull = ''Cannot read properties of null'',
       messages_create = (\<lambda>request. Inr ()), processReply = (\<lambda>reply. Inr ())\<rparr>
     = \<lparr>res_status = 500,
        res_body = (ErrorBody ''Cannot destructure a value that is null'' None
                      :: unit responseBody)\<rparr>
   \<and> POST
      \<lparr>req_json = Inr (JsonObject [(''messages'', JsonArray [JsonNull])]),
       nonZero = (\<lambda>n :: nat. n \<noteq> 0), decodeText = (\<lambda>b. None),
       destructuringNull = ''Cannot destructure a value that is null'',
       readingOfNull = ''Cannot read properties of null'',
       messages_create = (\<lambda>request. Inr ()), processReply = (\<lambda>reply. Inr ())\<rparr>
     = \<lparr>res_status = 500,
        res_body = (ErrorBody ''Cannot read properties of null'' None :: unit responseBody)\<rparr>"
proof -
  let ?msgs = "JsonArray [JsonObject
           [(''role'', JsonString ''user''), (''content'', JsonString ''total sales'')]]
           :: nat json"
  let ?noMessages = "\<lparr>req_json = Inr (JsonObject [(''model'', JsonString ''claude'')]),
       nonZero = (\<lambda>n :: nat. n \<noteq> 0), decodeText = (\<lambda>b. None),
       destructuringNull = ''Cannot destructure a value that is null'',
       readingOfNull = ''Cannot read properties of null'',
       messages_create = (\<lambda>request. Inr ()), processReply = (\<lambda>reply. Inr ())\<rparr>
       :: (nat, unit, unit) surroundings"
  let ?noModel = "\<lparr>req_json = Inr (JsonObject [(''messages'', JsonArray []),
         (''model'', JsonString [])]),
       nonZero = (\<lambda>n :: nat. n \<noteq> 0), decodeText = (\<lambda>b. None),
       destructuringNull = ''Cannot destructure a value that is null'',
       readingOfNull = ''Cannot read properties of null'',
       messages_create = (\<lambda>request. Inr ()), processReply = (\<lambda>reply. Inr ())\<rparr>
       :: (nat, unit, unit) surroundings"
  let ?auth = "\<lparr>req_json = Inr (JsonObject [(''messages'', ?msgs)]),
       nonZero = (\<lambda>n :: nat. n \<noteq> 0), decodeText = (\<lambda>b. None),
       destructuringNull = ''Cannot destructure a value that is null'',
       readingOfNull = ''Cannot read properties of null'',
       messages_create = (\<lambda>request. Inl (AuthenticationError ''invalid x-api-key'')),
       processReply = (\<lambda>reply :: unit. Inr ())\<rparr> :: (nat, unit, unit) surroundings"
  let ?busy = "\<lparr>req_json = Inr (JsonObject [(''messages'', ?msgs)]),
       nonZero = (\<lambda>n :: nat. n \<noteq> 0), decodeText = (\<lambda>b. None),
       destructuringNull = ''Cannot destructure a value that is null'',
       readingOfNull = ''Cannot read properties of null'',
       messages_create = (\<lambda>request. Inl (OtherError ''Overloaded'')),
       processReply = (\<lambda>reply :: unit. Inr ())\<rparr> :: (nat, unit, unit) surroundings"
  let ?noJson = "\<lparr>req_json = Inl (RaisedError ''Unexpected end of JSON input''),
       nonZero = (\<lambda>n :: nat. n \<noteq> 0), decodeText = (\<lambda>b. None),
       destructuringNull = ''Cannot destructure a value that is null'',
       readingOfNull = ''Cannot read properties of null'',
       messages_create = (\<lambda>request. Inr ()), processReply = (\<lambda>reply. Inr ())\<rparr>
       :: (nat, unit, unit) surroundings"
  let ?request = "\<lparr>chat_model = JsonString ''claude-3-haiku-20240307'',
       chat_messages = [\<lparr>msg_role = Some (JsonString ''user''),
                          msg_content = Plain (Some (JsonString ''total sales''))\<rparr>]\<rparr>
       :: nat chatRequest"
  let ?broken = "\<lparr>req_json = Inr (JsonObject [(''messages'', ?msgs)]),
       nonZero = (\<lambda>n :: nat. n \<noteq> 0), decodeText = (\<lambda>b. None),
       destructuringNull = ''Cannot destructure a value that is null'',
       readingOfNull = ''Cannot read properties of null'',
       messages_create = (\<lambda>request. Inr ()),
       processReply = (\<lambda>reply. Inl (RaisedError ''input is undefined''))\<rparr>
       :: (nat, unit, unit) surroundings"
  let ?nullBody = "\<lparr>req_json = Inr JsonNull,
       nonZero = (\<lambda>n :: nat. n \<noteq> 0), decodeText = (\<lambda>b. None),
       destructuringNull = ''Cannot destructure a value that is null'',
       readingOfNull = ''Cannot read properties of null'',
       messages_create = (\<lambda>request. Inr ()), processReply = (\<lambda>reply. Inr ())\<rparr>
       :: (nat, unit, unit) surroundings"
  let ?nullMessage = "\<lparr>req_json = Inr (JsonObject [(''messages'', JsonArray [JsonNull])]),
       nonZero = (\<lambda>n :: nat. n \<noteq> 0), decodeText = (\<lambda>b. None),
       destructuringNull = ''Cannot destructure a value that is null'',
       readingOfNull = ''Cannot read properties of null'',
       messages_create = (\<lambda>request. Inr ()), processReply = (\<lambda>reply. Inr ())\<rparr>
       :: (nat, unit, unit) surroundings"
  have p3: "prepareRequest ?broken = Inr ?request"
    by (simp add: prepareRequest_def convertMessages_def attachFile_def Let_def)
  have p1: "prepareRequest ?auth = Inr ?request"
    by (simp add: prepareRequest_def convertMessages_def attachFile_def Let_def)
  have p2: "prepareRequest ?busy = Inr ?request"
    by (simp add: prepareRequest_def convertMessages_def attachFile_def Let_def)
  have a: "res_status (POST ?noMessages) = 400"
    using POST_status [of ?noMessages] by simp
  have b: "res_status (POST ?noModel) = 400"
    using POST_status [of ?noModel] by simp
  have c: "res_status (POST ?auth) = 401"
    using POST_status [of ?auth] p1 by simp
  have d: "POST ?busy = \<lparr>res_status = 500, res_body = ErrorBody ''Overloaded'' None\<rparr>"
    using POST_status [of ?busy] p2 by simp
  have e: "POST ?noJson
             = \<lparr>res_status = 500, res_body = ErrorBody ''Unexpected end of JSON input'' None\<rparr>"
    using POST_status [of ?noJson] by simp
  have f: "POST ?broken
             = \<lparr>res_status = 500, res_body = ErrorBody ''input is undefined'' None\<rparr>"
    using POST_status [of ?broken] p3 by simp
  have g: "POST ?nullBody
             = \<lparr>res_status = 500,
                res_body = ErrorBody ''Cannot destructure a value that is null'' None\<rparr>"
    using POST_status [of ?nullBody] by simp
  have h: "POST ?nullMessage
             = \<lparr>res_status = 500,
                res_body = ErrorBody ''Cannot read properties of null'' None\<rparr>"
    using POST_status [of ?nullMessage] by simp
  from a b c d e f g h show ?thesis by blast
qed

section \<open>The final normalization pass is idempotent\<close>

lemma palette_truthy: "truthy (Some (colorPalette ! (i mod length colorPalette)))"
proof -
  have "i mod length colorPalette < length colorPalette"
    by (simp add: colorPalette_def)
  then have "colorPalette ! (i mod length colorPalette) \<in> set colorPalette"
    by (rule nth_mem)
  moreover have "\<forall>c \<in> set colorPalette. c \<noteq> []"
    by (simp add: colorPalette_def)
  ultimately show ?thesis by (simp add: truthy_def)
qed

lemma withTitle_truthy [simp]: "truthy (cfg_title (withTitle row0 c))"
  by (cases c) (simp add: withTitle_def Let_def truthy_def)

lemma withTitle_fix: "truthy (cfg_title c) \<Longrightarrow> withTitle row0 c = c"
  by (simp add: withTitle_def)

lemma withXAxisKey_title [simp]: "cfg_title (withXAxisKey row0 c) = cfg_title c"
  by (cases c) (simp add: withXAxisKey_def)

lemma withXAxisKey_margin [simp]: "cfg_margin (withXAxisKey row0 c) = cfg_margin c"
  by (cases c) (simp add: withXAxisKey_def)

lemma withXAxisKey_fix_iff:
  "withXAxisKey row0 c = c \<longleftrightarrow> truthy (cfg_xAxisKey c) \<or> cfg_xAxisKey c = inferredXAxisKey row0"
  by (cases c) (auto simp: withXAxisKey_def)

lemma withXAxisKey_settled:
  "truthy (cfg_xAxisKey (withXAxisKey row0 c))
   \<or> cfg_xAxisKey (withXAxisKey row0 c) = inferredXAxisKey row0"
  by (cases c) (simp add: withXAxisKey_def)

lemma withTotalLabel_sel [simp]:
  "cfg_title (withTotalLabel c) = cfg_title c"
  "cfg_xAxisKey (withTotalLabel c) = cfg_xAxisKey c"
  "cfg_margin (withTotalLabel c) = cfg_margin c"
  "truthy (cfg_totalLabel (withTotalLabel c))"
  by (cases c; simp add: withTotalLabel_def truthy_def)+

lemma withTotalLabel_fix: "truthy (cfg_totalLabel c) \<Longrightarrow> withTotalLabel c = c"
  by (simp add: withTotalLabel_def)

lemma withMargin_sel [simp]:
  "cfg_title (withMargin c) = cfg_title c"
  "cfg_xAxisKey (withMargin c) = cfg_xAxisKey c"
  "cfg_totalLabel (withMargin c) = cfg_totalLabel c"
  "cfg_margin (withMargin c) \<noteq> None"
  by (cases c; simp add: withMargin_def split: option.splits)+

lemma withMargin_fix: "cfg_margin c \<noteq> None \<Longrightarrow> withMargin c = c"
  by (auto simp: withMargin_def split: option.splits)

lemma ensureColor_fix:
  "truthy (series_color s) \<Longrightarrow>
   truthy (series_dataKey s) \<or> (series_dataKey s = Some [] \<and> k = []) \<Longrightarrow>
   ensureColor i k s = s"
  by (cases s) (auto simp: ensureColor_def Let_def)

lemma ensureColor_settled:
  "truthy (series_color (ensureColor i k s))
   \<and> (truthy (series_dataKey (ensureColor i k s))
       \<or> (series_dataKey (ensureColor i k s) = Some [] \<and> k = []))"
  using palette_truthy [of i]
  by (cases s) (auto simp: ensureColor_def Let_def truthy_def)

lemma map_enumerate_fix:
  "(\<And>i x. x \<in> set xs \<Longrightarrow> f (i, x) = x) \<Longrightarrow> map f (enumerate n xs) = xs"
  by (induction xs arbitrary: n) auto

lemma ensureColors_keys [simp]: "map fst (ensureColors cc) = map fst cc"
proof -
  have "map fst (map (\<lambda>(index, key, config). (key, ensureColor index key config))
          (enumerate n cc)) = map fst cc" for n
    by (induction cc arbitrary: n) auto
  then show ?thesis by (simp add: ensureColors_def)
qed

lemma ensureColors_Nil [simp]: "ensureColors cc = [] \<longleftrightarrow> cc = []"
  by (cases cc) (simp_all add: ensureColors_def)

lemma ensureColors_entries:
  "(k, s) \<in> set (ensureColors cc) \<Longrightarrow>
   truthy (series_color s) \<and> (truthy (series_dataKey s) \<or> (series_dataKey s = Some [] \<and> k = []))"
  using ensureColor_settled
  by (auto simp: ensureColors_def)

lemma commonDataKey_keys [simp]: "map fst (commonDataKey cc) = map fst cc"
  by (induction cc) (auto simp: commonDataKey_def)

lemma commonDataKey_Nil [simp]: "commonDataKey cc = [] \<longleftrightarrow> cc = []"
  by (simp add: commonDataKey_def)

lemma hd_keys: "cc \<noteq> [] \<Longrightarrow> fst (hd cc) = hd (map fst cc)"
  by (cases cc) auto

lemma commonDataKey_hd: "fst (hd (commonDataKey cc)) = fst (hd cc)"
proof (cases "cc = []")
  case True
  then show ?thesis by (simp add: commonDataKey_def)
next
  case False
  then have "fst (hd (commonDataKey cc)) = hd (map fst (commonDataKey cc))"
    by (intro hd_keys) simp
  with False show ?thesis by (simp add: hd_keys)
qed

lemma seriesSettled_ensureColors: "seriesSettled cc \<Longrightarrow> ensureColors cc = cc"
  unfolding ensureColors_def
  by (rule map_enumerate_fix) (auto simp: seriesSettled_def list_all_iff ensureColor_fix)

lemma seriesSettled_commonDataKey: "seriesSettled cc \<Longrightarrow> commonDataKey cc = cc"
proof -
  assume a: "seriesSettled cc"
  have "s\<lparr>series_dataKey := Some (fst (hd cc))\<rparr> = s"
    if "(k, s) \<in> set cc" "\<not> truthy (series_dataKey s)" for k s
    using a that by (cases s) (auto simp: seriesSettled_def list_all_iff)
  then show ?thesis
    unfolding commonDataKey_def by (intro map_idI) auto
qed

lemma commonDataKey_settled:
  assumes "\<And>k s. (k, s) \<in> set cc \<Longrightarrow>
     truthy (series_color s) \<and> (truthy (series_dataKey s) \<or> (series_dataKey s = Some [] \<and> k = []))"
  shows "seriesSettled (commonDataKey cc)"
  unfolding seriesSettled_def list_all_iff commonDataKey_hd
proof (rule ballI)
  fix e assume "e \<in> set (commonDataKey cc)"
  then obtain k s where ks: "(k, s) \<in> set cc"
    and e: "e = (k, if \<not> truthy (series_dataKey s) \<and> length cc > 0
                    then s\<lparr>series_dataKey := Some (fst (hd cc))\<rparr> else s)"
    by (auto simp: commonDataKey_def)
  from ks have ne: "length cc > 0" by (cases cc) auto
  from assms [OF ks] ne show "case e of (key, config) \<Rightarrow>
     truthy (series_color config)
     \<and> (truthy (series_dataKey config)
         \<or> (series_dataKey config = Some [] \<and> key = [] \<and> fst (hd cc) = []))"
    unfolding e by (cases s) (auto simp: truthy_def)
qed


lemma setProp_Nil [simp]: "setProp [] k v = [(k, v)]"
  by (simp add: setProp_def)

lemma barSeries_cong:
  "cfg_xAxisKey c = cfg_xAxisKey c' \<Longrightarrow> barSeries t row0 c cc = barSeries t row0 c' cc"
  by (simp add: barSeries_def)

lemma barSeries_nonempty: "cc \<noteq> [] \<Longrightarrow> barSeries t row0 c cc = cc"
  by (simp add: barSeries_def)

lemma barSeries_Nil:
  "barSeries t row0 c cc = [] \<Longrightarrow> barSeries t row0 c [] = [] \<and> cc = []"
  by (cases "cc = []") (auto simp: barSeries_def Let_def split: if_splits)

lemma needsReshape_cong:
  "cfg_xAxisKey c = cfg_xAxisKey c' \<Longrightarrow> needsReshape row0 rows c = needsReshape row0 rows c'"
  by (simp add: needsReshape_def)

lemma pieFormat_other: "t \<noteq> ''pie'' \<Longrightarrow> pieFormat t row0 st = st"
  by (cases st) (simp add: pieFormat_def)

lemma pieFormat_keep:
  "\<not> needsReshape row0 rows c \<Longrightarrow>
   pieFormat ''pie'' row0 (rows, c, cc) = (rows, withTotalLabel c, cc)"
  by (simp add: pieFormat_def)

lemma settled_fix:
  assumes "settled t rows cfg cc"
  shows "prepareChartDataForFrontend
           (Some \<lparr>chart_chartType = Some t, chart_data = Some rows, chart_config = Some cfg,
                  chart_chartConfig = Some cc\<rparr>)
         = Some \<lparr>chart_chartType = Some t, chart_data = Some rows, chart_config = Some cfg,
                 chart_chartConfig = Some cc\<rparr>"
proof -
  from assms obtain row0 rest where rows: "rows = row0 # rest"
    by (cases rows) (auto simp: settled_def)
  from assms have t: "truthy (Some t)" "keyText (Some t) = t"
    by (simp_all add: settled_def truthy_def keyText_def)
  from assms have c1: "withXAxisKey row0 (withTitle row0 cfg) = cfg"
    by (simp add: settled_def rows withTitle_fix)
  from assms have c2: "ensureColors (barSeries t row0 cfg cc) = cc"
    by (simp add: settled_def rows seriesSettled_ensureColors)
  from assms have c3: "pieFormat t row0 (row0 # rest, cfg, cc) = (row0 # rest, cfg, cc)"
    by (simp add: settled_def rows)
  from assms have c4: "withMargin cfg = cfg" "commonDataKey cc = cc"
    by (simp_all add: settled_def withMargin_fix seriesSettled_commonDataKey)
  show ?thesis
    unfolding prepareChartDataForFrontend_def
    by (simp add: rows t c1 c2 c3 c4 Let_def)
qed

lemma pass_settled:
  assumes "prepareChartDataForFrontend (Some c) = Some r"
  shows "\<exists>t rows cfg cc.
           r = \<lparr>chart_chartType = Some t, chart_data = Some rows, chart_config = Some cfg,
                chart_chartConfig = Some cc\<rparr>
           \<and> settled t rows cfg cc"
proof -
  from assms obtain row0 rest where data: "chart_data c = Some (row0 # rest)"
    by (auto simp: prepareChartDataForFrontend_def Let_def split: option.splits list.splits)
  define ct where "ct = (if \<not> truthy (chart_chartType c) then Some ''bar'' else chart_chartType c)"
  define t where "t = keyText ct"
  define cfg0 where "cfg0 = (case chart_config c of None \<Rightarrow> emptyOptions | Some g \<Rightarrow> g)"
  define cc0 where "cc0 = (case chart_chartConfig c of None \<Rightarrow> [] | Some l \<Rightarrow> l)"
  define cfg1 where "cfg1 = withXAxisKey row0 (withTitle row0 cfg0)"
  define cc1 where "cc1 = ensureColors (barSeries t row0 cfg1 cc0)"
  have ct: "ct = Some t" and tne: "t \<noteq> []"
    unfolding t_def ct_def
    by (auto simp: truthy_def keyText_def split: option.splits)
  have title1: "truthy (cfg_title cfg1)"
    by (simp add: cfg1_def)
  have x1: "truthy (cfg_xAxisKey cfg1) \<or> cfg_xAxisKey cfg1 = inferredXAxisKey row0"
    unfolding cfg1_def by (rule withXAxisKey_settled)
  have "prepareChartDataForFrontend (Some c)
          = (case pieFormat t row0 (row0 # rest, cfg1, cc1) of
               (rows, config2, chartConfig2) \<Rightarrow>
                 Some \<lparr>chart_chartType = ct, chart_data = Some rows,
                       chart_config = Some (withMargin config2),
                       chart_chartConfig = Some (commonDataKey chartConfig2)\<rparr>)"
    unfolding prepareChartDataForFrontend_def cc1_def cfg1_def cfg0_def cc0_def t_def ct_def
    by (simp only: option.case data list.case Let_def)
  with assms have r: "r = (case pieFormat t row0 (row0 # rest, cfg1, cc1) of
                  (rows, config2, chartConfig2) \<Rightarrow>
                    \<lparr>chart_chartType = Some t, chart_data = Some rows,
                     chart_config = Some (withMargin config2),
                     chart_chartConfig = Some (commonDataKey chartConfig2)\<rparr>)"
    by (simp add: ct split: prod.splits)
  have settledSeries: "seriesSettled (commonDataKey cc1)"
    unfolding cc1_def by (rule commonDataKey_settled) (rule ensureColors_entries)
  show ?thesis
  proof (cases "t = ''pie'' \<and> needsReshape row0 (row0 # rest) cfg1")
    case True
    define valueKey where "valueKey = hd (seriesFields row0 (cfg_xAxisKey cfg1))"
    define rows' where "rows' = map (\<lambda>item.
         [(''segment'', getProp item (keyText (cfg_xAxisKey cfg1))),
          (''value'', getProp item valueKey)]) (row0 # rest)"
    define cfg' where "cfg' = withMargin (withTotalLabel (cfg1\<lparr>cfg_xAxisKey := Some ''segment''\<rparr>))"
    define cc' where "cc' = commonDataKey [(''value'',
          emptySeries\<lparr>series_dataKey := Some ''value'',
            series_name := Some (replaceAllChar (CHR ''_'') '' '' valueKey),
            series_color := Some (colorPalette ! 0)\<rparr>)]"
    have r': "r = \<lparr>chart_chartType = Some t, chart_data = Some rows', chart_config = Some cfg',
                   chart_chartConfig = Some cc'\<rparr>"
      using True unfolding r
      by (simp add: pieFormat_def Let_def rows'_def cfg'_def cc'_def valueKey_def)
    have fmt: "hasCorrectFormat rows'"
      by (simp add: rows'_def hasCorrectFormat_def list_all_iff)
    have x': "cfg_xAxisKey cfg' = Some ''segment''"
      by (simp add: cfg'_def)
    have "rows' \<noteq> []" by (simp add: rows'_def)
    moreover have "truthy (cfg_title cfg')"
      using title1 by (simp add: cfg'_def)
    moreover have "withXAxisKey (hd rows') cfg' = cfg'"
      by (simp add: withXAxisKey_fix_iff x' truthy_def)
    moreover have "barSeries t (hd rows') cfg' cc' = cc'"
      using True by (simp add: barSeries_def)
    moreover have "seriesSettled cc'"
      unfolding cc'_def
      using palette_truthy [of 0]
      by (intro commonDataKey_settled) (auto simp: truthy_def emptySeries_def colorPalette_def)
    moreover have "pieFormat t (hd rows') (rows', cfg', cc') = (rows', cfg', cc')"
    proof -
      have "\<not> needsReshape (hd rows') rows' cfg'"
        using fmt by (simp add: needsReshape_def)
      moreover have "withTotalLabel cfg' = cfg'"
        by (rule withTotalLabel_fix) (simp add: cfg'_def)
      ultimately show ?thesis
        using True by (simp add: pieFormat_keep)
    qed
    moreover have "cfg_margin cfg' \<noteq> None"
      by (simp add: cfg'_def)
    ultimately have "settled t rows' cfg' cc'"
      using tne by (simp add: settled_def)
    with r' show ?thesis by blast
  next
    case False
    define cfg2 where "cfg2 = (if t = ''pie'' then withTotalLabel cfg1 else cfg1)"
    define cfg' where "cfg' = withMargin cfg2"
    have pf: "pieFormat t row0 (row0 # rest, cfg1, cc1) = (row0 # rest, cfg2, cc1)"
      using False by (auto simp: cfg2_def pieFormat_other pieFormat_keep)
    have r': "r = \<lparr>chart_chartType = Some t, chart_data = Some (row0 # rest),
                   chart_config = Some cfg', chart_chartConfig = Some (commonDataKey cc1)\<rparr>"
      unfolding r pf by (simp add: cfg'_def)
    have x': "cfg_xAxisKey cfg' = cfg_xAxisKey cfg1"
      by (simp add: cfg'_def cfg2_def)
    have "truthy (cfg_title cfg')"
      using title1 by (simp add: cfg'_def cfg2_def)
    moreover have "withXAxisKey row0 cfg' = cfg'"
      using x1 by (simp add: withXAxisKey_fix_iff x')
    moreover have "barSeries t row0 cfg' (commonDataKey cc1) = commonDataKey cc1"
    proof (cases "cc1 = []")
      case True
      then have "barSeries t row0 cfg1 cc0 = []"
        by (simp add: cc1_def)
      then have "barSeries t row0 cfg1 [] = []"
        by (blast dest: barSeries_Nil)
      then have "barSeries t row0 cfg' [] = []"
        by (simp add: barSeries_cong [OF x'])
      with True show ?thesis by (simp add: commonDataKey_def)
    next
      case False
      then show ?thesis by (simp add: barSeries_nonempty)
    qed
    moreover have "pieFormat t row0 (row0 # rest, cfg', commonDataKey cc1)
                     = (row0 # rest, cfg', commonDataKey cc1)"
    proof (cases "t = ''pie''")
      case True
      with False have "\<not> needsReshape row0 (row0 # rest) cfg1" by simp
      then have "\<not> needsReshape row0 (row0 # rest) cfg'"
        by (simp add: needsReshape_cong [OF x'])
      moreover have "withTotalLabel cfg' = cfg'"
        by (rule withTotalLabel_fix) (simp add: cfg'_def cfg2_def True)
      ultimately show ?thesis
        using True by (simp add: pieFormat_keep)
    next
      case False
      then show ?thesis by (simp add: pieFormat_other)
    qed
    moreover have "cfg_margin cfg' \<noteq> None"
      by (simp add: cfg'_def)
    ultimately have "settled t (row0 # rest) cfg' (commonDataKey cc1)"
      using tne settledSeries by (simp add: settled_def)
    with r' show ?thesis by blast
  qed
qed

text \<open>
  C5. Running the final normalization pass on its own result gives that result again:
  \<open>prepareChartDataForFrontend (prepareChartDataForFrontend c) = prepareChartDataForFrontend c\<close>
  for every chart object \<open>c\<close> (and for \<open>null\<close>), so the second pass alters and removes no
  field.
\<close>

theorem prepareChartDataForFrontend_idempotent:
  "prepareChartDataForFrontend (prepareChartDataForFrontend c) = prepareChartDataForFrontend c"
proof (cases c)
  case None
  then show ?thesis by (simp add: prepareChartDataForFrontend_def)
next
  case (Some chart)
  show ?thesis
  proof (cases "prepareChartDataForFrontend (Some chart)")
    case None
    with Some show ?thesis by (simp add: prepareChartDataForFrontend_def)
  next
    case (Some r)
    from pass_settled [OF Some] obtain t rows cfg cc where
      "r = \<lparr>chart_chartType = Some t, chart_data = Some rows, chart_config = Some cfg,
            chart_chartConfig = Some cc\<rparr>" and "settled t rows cfg cc"
      by blast
    with settled_fix [of t rows cfg cc] Some \<open>c = Some chart\<close> show ?thesis by simp
  qed
qed

theorem prepareChartDataForFrontend_idempotent_witness:
  "prepareChartDataForFrontend
     (Some \<lparr>chart_chartType = Some ''pie'',
            chart_data = Some [[(''region'', JStr ''North''), (''total_sales'', JNum (10::nat))]],
            chart_config = None, chart_chartConfig = Some [(''total_sales'', emptySeries)]\<rparr>)
     = Some \<lparr>chart_chartType = Some ''pie'',
              chart_data = Some [[(''segment'', JStr ''North''), (''value'', JNum 10)]],
              chart_config = Some
                \<lparr>cfg_xAxisKey = Some ''segment'', cfg_title = Some ''total sales by region'',
                 cfg_description = None, cfg_totalLabel = Some ''Total'',
                 cfg_margin = Some \<lparr>margin_top = 20, margin_right = 30, margin_bottom = 50,
                                      margin_left = 60\<rparr>\<rparr>,
              chart_chartConfig = Some
                [(''value'', \<lparr>series_label = None, series_dataKey = Some ''value'',
                              series_name = Some ''total sales'',
                              series_color = Some ''#3366CC''\<rparr>)]\<rparr>
   \<and> prepareChartDataForFrontend
       (Some \<lparr>chart_chartType = Some ''pie'',
              chart_data = Some [[(''segment'', JStr ''North''), (''value'', JNum (10::nat))]],
              chart_config = Some
                \<lparr>cfg_xAxisKey = Some ''segment'', cfg_title = Some ''total sales by region'',
                 cfg_description = None, cfg_totalLabel = Some ''Total'',
                 cfg_margin = Some \<lparr>margin_top = 20, margin_right = 30, margin_bottom = 50,
                                      margin_left = 60\<rparr>\<rparr>,
              chart_chartConfig = Some
                [(''value'', \<lparr>series_label = None, series_dataKey = Some ''value'',
                              series_name = Some ''total sales'',
                              series_color = Some ''#3366CC''\<rparr>)]\<rparr>)
     = Some \<lparr>chart_chartType = Some ''pie'',
              chart_data = Some [[(''segment'', JStr ''North''), (''value'', JNum 10)]],
              chart_config = Some
                \<lparr>cfg_xAxisKey = Some ''segment'', cfg_title = Some ''total sales by region'',
                 cfg_description = None, cfg_totalLabel = Some ''Total'',
                 cfg_margin = Some \<lparr>margin_top = 20, margin_right = 30, margin_bottom = 50,
                                      margin_left = 60\<rparr>\<rparr>,
              chart_chartConfig = Some
                [(''value'', \<lparr>series_label = None, series_dataKey = Some ''value'',
                              series_name = Some ''total sales'',
                              series_color = Some ''#3366CC''\<rparr>)]\<rparr>"
proof -
  let ?c = "Some \<lparr>chart_chartType = Some ''pie'',
            chart_data = Some [[(''region'', JStr ''North''), (''total_sales'', JNum (10::nat))]],
            chart_config = None, chart_chartConfig = Some [(''total_sales'', emptySeries)]\<rparr>"
  let ?r = "Some \<lparr>chart_chartType = Some ''pie'',
              chart_data = Some [[(''segment'', JStr ''North''), (''value'', JNum (10::nat))]],
              chart_config = Some
                \<lparr>cfg_xAxisKey = Some ''segment'', cfg_title = Some ''total sales by region'',
                 cfg_description = None, cfg_totalLabel = Some ''Total'',
                 cfg_margin = Some \<lparr>margin_top = 20, margin_right = 30, margin_bottom = 50,
                                      margin_left = 60\<rparr>\<rparr>,
              chart_chartConfig = Some
                [(''value'', \<lparr>series_label = None, series_dataKey = Some ''value'',
                              series_name = Some ''total sales'',
                              series_color = Some ''#3366CC''\<rparr>)]\<rparr>"
  have first: "prepareChartDataForFrontend ?c = ?r"
    by code_simp
  from prepareChartDataForFrontend_idempotent [of ?c]
  have "prepareChartDataForFrontend ?r = ?r"
    unfolding first .
  with first show ?thesis by blast
qed

end
